theory Spec2Isabelle
  imports Complex_Main "HOL-Library.AList"
begin

text \<open>
  A shallow embedding of \<^verbatim>\<open>albumentations/core/transforms_interface.py\<close>: the batch
  containers \<^verbatim>\<open>BBoxesInternalType\<close> and \<^verbatim>\<open>KeypointsInternalType\<close> (construction,
  validation, equality, item assignment), \<^verbatim>\<open>to_tuple\<close>, and \<^verbatim>\<open>BasicTransform\<close> with
  its subclasses \<^verbatim>\<open>ImageOnlyTransform\<close> and \<^verbatim>\<open>DualTransform\<close> (call, replay,
  recording, parameter update, dispatch, the handlers). \<^verbatim>\<open>__getitem__\<close>, serialization,
  \<^verbatim>\<open>NoOp\<close> and \<^verbatim>\<open>ReferenceBasedTransform\<close> are left out.
\<close>

section \<open>Python exceptions as values\<close>

text \<open>
  Every \<^verbatim>\<open>raise\<close> of \<^verbatim>\<open>albumentations/core/transforms_interface.py\<close>, and every
  exception of the interpreter or of numpy that the modelled code can run into, is a value
  of \<open>error\<close>; a function that can raise returns \<open>error + 'a\<close> with \<open>Inl\<close> for the
  exception. \<open>Unmodelled\<close> is not a Python exception: it marks the few duck-typed argument
  combinations on which the embedding does not follow the interpreter.
\<close>

datatype error =
    TypeError | ValueError | IndexError | KeyError | AttributeError
  | AssertionError | NotImplementedError | Unmodelled

definition bindE :: "error + 'a \<Rightarrow> ('a \<Rightarrow> error + 'b) \<Rightarrow> error + 'b" where
  "bindE m f = (case m of Inl e \<Rightarrow> Inl e | Inr x \<Rightarrow> f x)"

fun mapE :: "('a \<Rightarrow> error + 'b) \<Rightarrow> 'a list \<Rightarrow> error + 'b list" where
  "mapE f [] = Inr []"
| "mapE f (x # xs) = bindE (f x) (\<lambda>y. bindE (mapE f xs) (\<lambda>ys. Inr (y # ys)))"

section \<open>numpy arrays\<close>

text \<open>
  An \<^verbatim>\<open>np.ndarray\<close> is its shape and its elements in row-major order. Floats are
  idealised as reals: the modelled code only moves, compares and negates them.
\<close>

datatype 'a ndarray = NdArray (shape: "nat list") (elems: "'a list")

definition wf_array :: "'a ndarray \<Rightarrow> bool" where
  "wf_array a = (length (elems a) = prod_list (shape a))"

text \<open>\<^verbatim>\<open>len(a)\<close>: the first dimension; a 0-dimensional array is unsized.\<close>

definition np_len :: "'a ndarray \<Rightarrow> error + nat" where
  "np_len a = (case shape a of [] \<Rightarrow> Inl TypeError | n # _ \<Rightarrow> Inr n)"

text \<open>\<^verbatim>\<open>np.array_equal(a, b)\<close>: same shape and same elements.\<close>

definition array_equal :: "'a ndarray \<Rightarrow> 'a ndarray \<Rightarrow> bool" where
  "array_equal a b = (shape a = shape b \<and> elems a = elems b)"

text \<open>
  Assignment \<^verbatim>\<open>a[idx] = v\<close> broadcasts \<open>v\<close> to the shape of the addressed block:
  surplus leading dimensions of \<open>v\<close> must be 1 and are dropped, missing ones are added as 1,
  and then every dimension of \<open>v\<close> must be the block's or be 1 (\<open>compatible\<close>; all
  dimensions are compared, also behind a dimension 0). Only then are the elements laid out
  (\<open>bcast\<close>). The array is never resized.
\<close>

fun chunks :: "nat \<Rightarrow> nat \<Rightarrow> 'a list \<Rightarrow> 'a list list" where
  "chunks k 0 es = []"
| "chunks k (Suc d) es = take k es # chunks k d (drop k es)"

fun compatible :: "nat list \<Rightarrow> nat list \<Rightarrow> bool" where
  "compatible [] [] = True"
| "compatible (d # ds) (t # ts) = ((d = t \<or> d = 1) \<and> compatible ds ts)"
| "compatible _ _ = False"

fun bcast :: "nat list \<Rightarrow> nat list \<Rightarrow> 'a list \<Rightarrow> 'a list" where
  "bcast (d # ds) (t # ts) es =
     (if d = t then concat (map (bcast ds ts) (chunks (prod_list ds) d es))
      else concat (replicate t (bcast ds ts es)))"
| "bcast _ _ es = es"

definition np_broadcast :: "nat list \<Rightarrow> nat list \<Rightarrow> 'a list \<Rightarrow> 'a list option" where
  "np_broadcast vs ts es =
     (let extra = length vs - length ts in
      if \<not> list_all (\<lambda>d. d = 1) (take extra vs) then None
      else let vs' = replicate (length ts - length (drop extra vs)) 1 @ drop extra vs in
           if compatible vs' ts then Some (bcast vs' ts es) else None)"

definition write_block :: "'a ndarray \<Rightarrow> nat \<Rightarrow> nat list \<Rightarrow> 'a ndarray \<Rightarrow> error + 'a ndarray" where
  "write_block a off block v =
     (case np_broadcast (shape v) block (elems v) of
        None \<Rightarrow> Inl ValueError
      | Some r \<Rightarrow>
          Inr (NdArray (shape a) (take off (elems a) @ r @ drop (off + prod_list block) (elems a))))"

text \<open>
  An index is an integer (negative ones count from the end) or a slice
  \<^verbatim>\<open>start:stop\<close> of step 1, whose bounds are clamped as Python clamps them.
\<close>

datatype index = Idx int | Slice "int option" "int option"

definition norm_index :: "nat \<Rightarrow> int \<Rightarrow> error + nat" where
  "norm_index n i =
     (if 0 \<le> i \<and> i < int n then Inr (nat i)
      else if i < 0 \<and> - int n \<le> i then Inr (nat (i + int n))
      else Inl IndexError)"

definition slice_bound :: "nat \<Rightarrow> int \<Rightarrow> nat" where
  "slice_bound n i = (if i < 0 then nat (max 0 (i + int n)) else min (nat i) n)"

definition slice_range :: "nat \<Rightarrow> int option \<Rightarrow> int option \<Rightarrow> nat \<times> nat" where
  "slice_range n start stop =
     (let lo = (case start of None \<Rightarrow> 0 | Some i \<Rightarrow> slice_bound n i);
          hi = (case stop of None \<Rightarrow> n | Some i \<Rightarrow> slice_bound n i)
      in (lo, max lo hi))"

definition np_setitem :: "'a ndarray \<Rightarrow> index \<Rightarrow> 'a ndarray \<Rightarrow> error + 'a ndarray" where
  "np_setitem a idx v =
     (case shape a of
        [] \<Rightarrow> Inl IndexError
      | n # s \<Rightarrow>
          (case idx of
             Idx i \<Rightarrow> bindE (norm_index n i) (\<lambda>j. write_block a (j * prod_list s) s v)
           | Slice start stop \<Rightarrow>
               (case slice_range n start stop of
                  (lo, hi) \<Rightarrow> write_block a (lo * prod_list s) ((hi - lo) # s) v)))"

text \<open>
  In an array of dtype object a fully indexed slot holds any object, so
  \<^verbatim>\<open>t[i] = v\<close> on a one-dimensional \<open>t\<close> stores the array \<open>v\<close> itself, as the
  object \<open>box v\<close>; every other case broadcasts as above.
\<close>

definition np_setitem_object ::
  "('m ndarray \<Rightarrow> 'm) \<Rightarrow> 'm ndarray \<Rightarrow> index \<Rightarrow> 'm ndarray \<Rightarrow> error + 'm ndarray" where
  "np_setitem_object box a idx v =
     (case (shape a, idx) of
        ([n], Idx i) \<Rightarrow> bindE (norm_index n i) (\<lambda>j. Inr (NdArray [n] ((elems a)[j := box v])))
      | _ \<Rightarrow> np_setitem a idx v)"

section \<open>Annotation batches\<close>

text \<open>
  \<^verbatim>\<open>BBoxesInternalType\<close> and \<^verbatim>\<open>KeypointsInternalType\<close> are the two concrete
  subclasses of \<^verbatim>\<open>Floats4Internal\<close>; they differ in \<^verbatim>\<open>assert_array_format\<close> only.
  A constructed object holds two arrays: \<^verbatim>\<open>__post_init__\<close> leaves an ndarray in either
  field.
\<close>

datatype kind = Boxes | Keypoints

datatype 'm batch = Batch (kind_of: kind) (array: "real ndarray") (targets: "'m ndarray")

text \<open>
  What a caller passes for a field: an ndarray, or any other Python object (\<open>Plain\<close>),
  of which the model keeps only what \<^verbatim>\<open>np.array\<close> would read.
\<close>

datatype ('s, 'a) pyarg = Plain 's | Nd "'a ndarray"

definition width_ok :: "kind \<Rightarrow> nat \<Rightarrow> bool" where
  "width_ok k w = (case k of Boxes \<Rightarrow> w = 4 | Keypoints \<Rightarrow> 2 \<le> w \<and> w \<le> 4)"

definition assert_array_format :: "kind \<Rightarrow> ('s, real) pyarg \<Rightarrow> error + unit" where
  "assert_array_format k v =
     (case v of
        Plain _ \<Rightarrow> Inl TypeError
      | Nd a \<Rightarrow>
          bindE (np_len a) (\<lambda>n.
            if n \<noteq> 0 then
              (if \<not> (length (shape a) = 2 \<and> width_ok k (last (shape a))) then Inl ValueError
               else Inr ())
            else Inr ()))"

text \<open>
  \<^verbatim>\<open>check_consistency\<close>. The keypoints variant also tests
  \<^verbatim>\<open>self.targets is not None\<close>, which holds of every ndarray.
\<close>

definition check_consistency :: "'m batch \<Rightarrow> error + unit" where
  "check_consistency b =
     bindE (np_len (array b)) (\<lambda>n.
     bindE (np_len (targets b)) (\<lambda>m.
       if n \<noteq> m then Inl ValueError
       else assert_array_format (kind_of b) (Nd (array b) :: (unit, real) pyarg)))"

text \<open>
  \<^verbatim>\<open>BatchInternalType.__setattr__\<close> for the key \<^verbatim>\<open>"array"\<close>: the value is checked
  and then stored.
\<close>

definition setattr_array :: "kind \<Rightarrow> ('s, real) pyarg \<Rightarrow> error + ('s, real) pyarg" where
  "setattr_array k v = bindE (assert_array_format k v) (\<lambda>_. Inr v)"

text \<open>
  \<^verbatim>\<open>__post_init__\<close>, on the two fields as \<^verbatim>\<open>__init__\<close> stored them. numpy's
  coercions \<^verbatim>\<open>np.array(x, dtype=float)\<close> and \<^verbatim>\<open>np.array(x, dtype=object)\<close> are
  parameters (\<open>np_float\<close>, \<open>np_object\<close>); \<^verbatim>\<open>astype(float)\<close> is the identity on an array
  of reals. Every assignment to \<^verbatim>\<open>self.array\<close> goes through \<^verbatim>\<open>__setattr__\<close>.
\<close>

definition post_init ::
  "kind \<Rightarrow> ('s \<Rightarrow> error + real ndarray) \<Rightarrow> ('t \<Rightarrow> error + 'm ndarray) \<Rightarrow>
   ('s, real) pyarg \<Rightarrow> ('t, 'm) pyarg \<Rightarrow> error + 'm batch" where
  "post_init k np_float np_object a t =
     bindE (case a of Plain s \<Rightarrow> np_float s | Nd x \<Rightarrow> Inr x) (\<lambda>arr.
     bindE (setattr_array k (Nd arr :: ('s, real) pyarg)) (\<lambda>_.
     bindE (case t of Plain s \<Rightarrow> np_object s | Nd y \<Rightarrow> Inr y) (\<lambda>tg.
     bindE (np_len arr) (\<lambda>n.
     bindE (if n \<noteq> 0 then
              (case shape tg of
                 [] \<Rightarrow> Inl IndexError
               | m # _ \<Rightarrow> Inr (if m = 0 then NdArray [n, 0] [] else tg))
            else Inr tg) (\<lambda>tg'.
     bindE (check_consistency (Batch k arr tg')) (\<lambda>_.
       Inr (Batch k arr tg')))))))"

text \<open>
  The dataclass constructor: \<^verbatim>\<open>__init__\<close> assigns \<^verbatim>\<open>self.array\<close> (through
  \<^verbatim>\<open>__setattr__\<close>) and \<^verbatim>\<open>self.targets\<close>, an omitted argument being replaced by its
  default factory (\<^verbatim>\<open>np.empty((0, 4))\<close>, \<^verbatim>\<open>np.empty((0, 0), dtype=object)\<close>), and
  then calls \<^verbatim>\<open>__post_init__\<close>.
\<close>

definition construct ::
  "kind \<Rightarrow> ('s \<Rightarrow> error + real ndarray) \<Rightarrow> ('t \<Rightarrow> error + 'm ndarray) \<Rightarrow>
   ('s, real) pyarg option \<Rightarrow> ('t, 'm) pyarg option \<Rightarrow> error + 'm batch" where
  "construct k np_float np_object array_arg targets_arg =
     bindE (setattr_array k (case array_arg of None \<Rightarrow> Nd (NdArray [0, 4] []) | Some v \<Rightarrow> v))
       (\<lambda>a. post_init k np_float np_object a
               (case targets_arg of None \<Rightarrow> Nd (NdArray [0, 0] []) | Some v \<Rightarrow> v))"

text \<open>
  \<^verbatim>\<open>Floats4Internal.__eq__\<close>. The other operand is a batch or some other object;
  \<^verbatim>\<open>isinstance(other, self.__class__)\<close> holds of a batch of the same class only. The
  chained comparison of the four lengths stops at its first false link.
\<close>

datatype 'm operand = OBatch "'m batch" | ONotBatch

definition batch_eq :: "'m batch \<Rightarrow> 'm operand \<Rightarrow> error + bool" where
  "batch_eq self other =
     (case other of
        ONotBatch \<Rightarrow> Inl TypeError
      | OBatch ob \<Rightarrow>
          if kind_of ob \<noteq> kind_of self then Inl TypeError
          else
            bindE (np_len (array self)) (\<lambda>n1.
            bindE (np_len (array ob)) (\<lambda>n2.
            bindE (if n1 \<noteq> n2 then Inr False
                   else bindE (np_len (targets self)) (\<lambda>n3.
                        if n2 \<noteq> n3 then Inr False
                        else bindE (np_len (targets ob)) (\<lambda>n4.
                             Inr (n3 = n4 \<and> n4 = 0)))) (\<lambda>all_empty.
              if all_empty then Inr True
              else Inr (array_equal (array self) (array ob)
                        \<and> array_equal (targets self) (targets ob))))))"

text \<open>
  \<^verbatim>\<open>Floats4Internal.__setitem__\<close>: two array assignments, the records first. The
  result is paired with the object as the call leaves it, also when it raises.
\<close>

definition setitem ::
  "('m ndarray \<Rightarrow> 'm) \<Rightarrow> 'm batch \<Rightarrow> index \<Rightarrow> 'm batch \<Rightarrow> (error + unit) \<times> 'm batch" where
  "setitem box self idx v =
     (case np_setitem (array self) idx (array v) of
        Inl e \<Rightarrow> (Inl e, self)
      | Inr a' \<Rightarrow>
          (case np_setitem_object box (targets self) idx (targets v) of
             Inl e \<Rightarrow> (Inl e, Batch (kind_of self) a' (targets self))
           | Inr t' \<Rightarrow> (Inr (), Batch (kind_of self) a' t')))"

text \<open>The invariant of a batch: both arrays are well formed and validation passes.\<close>

definition batch_ok :: "'m batch \<Rightarrow> bool" where
  "batch_ok b = (wf_array (array b) \<and> wf_array (targets b) \<and> check_consistency b = Inr ())"

section \<open>Range normalisation\<close>

text \<open>
  The argument of \<^verbatim>\<open>to_tuple\<close>: \<^verbatim>\<open>None\<close>, a number (\<^verbatim>\<open>int\<close> or \<^verbatim>\<open>float\<close>),
  a \<^verbatim>\<open>Sequence\<close> of objects, or an object of any other type. Numbers are the values of
  a linearly ordered type with negation and addition (the integers are one; floats
  without NaN, up to rounding in the addition of the bias, are another). A tuple and a
  list with the same elements are the same \<open>PSeq\<close>, so \<^verbatim>\<open>tuple(s)\<close> is \<open>s\<close>.
  An element that is not a number does not support \<^verbatim>\<open>bias + x\<close>.
\<close>

datatype 'a param = PNone | PNum 'a | PSeq "'a param list" | POther

definition add_bias :: "'a::plus \<Rightarrow> 'a param \<Rightarrow> error + 'a param" where
  "add_bias b x = (case x of PNum y \<Rightarrow> Inr (PNum (b + y)) | _ \<Rightarrow> Inl TypeError)"

definition to_tuple ::
  "('a::{uminus,plus,linorder}) param \<Rightarrow> 'a option \<Rightarrow> 'a option \<Rightarrow> error + 'a param" where
  "to_tuple param low bias =
     (if low \<noteq> None \<and> bias \<noteq> None then Inl ValueError
      else case param of
        PNone \<Rightarrow> Inr PNone
      | _ \<Rightarrow>
          bindE (case param of
                   PNum v \<Rightarrow>
                     (case low of
                        None \<Rightarrow> Inr [PNum (- v), PNum v]
                      | Some l \<Rightarrow> Inr (if l < v then [PNum l, PNum v] else [PNum v, PNum l]))
                 | PSeq xs \<Rightarrow> if length xs \<noteq> 2 then Inl ValueError else Inr xs
                 | _ \<Rightarrow> Inl ValueError) (\<lambda>pair.
            case bias of
              Some b \<Rightarrow> bindE (mapE (add_bias b) pair) (\<lambda>ys. Inr (PSeq ys))
            | None \<Rightarrow> Inr (PSeq pair)))"

section \<open>Transforms\<close>

text \<open>
  A Python object as far as the transforms look at it: \<^verbatim>\<open>None\<close>, an integer, a numeric
  array (an image or a mask), a list, an annotation batch, or a dictionary whose keys
  are strings or integers. A dictionary is an association list in insertion order, updated
  by \<open>AList.update\<close> (an existing key keeps its place, a new one goes last), as Python's is.

  Objects are values here. A handler that writes into its argument and returns it
  (\<^verbatim>\<open>apply_to_bboxes\<close>, \<^verbatim>\<open>apply_to_keypoints\<close>) returns the written value, and the
  model does not follow object identity: it describes the calls in which no mutable object
  is passed under two names, which is the ownership rule of the batches (one batch per
  call, never shared). The named data of a call never have the names \<^verbatim>\<open>self\<close> and
  \<^verbatim>\<open>force_apply\<close>, which Python binds to the parameters of \<^verbatim>\<open>__call__\<close>.
\<close>

datatype pyvalue =
    VNone
  | VInt int
  | VArr "real ndarray"
  | VList "pyvalue list"
  | VBatch "pyvalue batch"
  | VDict "((string + nat) \<times> pyvalue) list"

type_synonym params = "(string \<times> pyvalue) list"

text \<open>Which class's \<^verbatim>\<open>targets\<close> property the instance has.\<close>

datatype profile = BasicProfile | ImageOnly | Dual

text \<open>
  A transform instance. The first nine fields are the instance state that
  \<^verbatim>\<open>BasicTransform.__init__\<close> sets, with \<open>ident\<close> for \<^verbatim>\<open>id(self)\<close>. The others are
  what a concrete subclass supplies: the methods it overrides, as functions (\<open>apply_img\<close> is
  \<^verbatim>\<open>apply\<close>), its properties, and the attributes \<^verbatim>\<open>update_params\<close> looks for with
  \<^verbatim>\<open>hasattr\<close>. \<open>'g\<close> is the state of the random source when the call draws its
  parameters: \<^verbatim>\<open>get_params\<close> and \<^verbatim>\<open>get_params_dependent_on_targets\<close> are functions
  of it.
\<close>

record 'g transform =
  p :: real
  always_apply :: bool
  additional_targets :: "(string \<times> string) list"
  deterministic :: bool
  save_key :: string
  params :: "params option"
  replay_mode :: bool
  applied_in_replay :: bool
  ident :: nat
  profile :: profile
  apply_img :: "pyvalue \<Rightarrow> params \<Rightarrow> error + pyvalue"
  apply_to_bbox :: "real list \<Rightarrow> params \<Rightarrow> error + real list"
  apply_to_keypoint :: "real list \<Rightarrow> params \<Rightarrow> error + real list"
  get_params :: "'g \<Rightarrow> error + params"
  targets_as_params :: "string list"
  get_params_dependent_on_targets :: "'g \<Rightarrow> params \<Rightarrow> error + params"
  target_dependence :: "(string \<times> string list) list"
  interpolation :: "pyvalue option"
  fill_value :: "pyvalue option"
  mask_fill_value :: "pyvalue option"

text \<open>\<^verbatim>\<open>d[k]\<close> on a dictionary, and \<^verbatim>\<open>{k: d[k] for k in ks}\<close>.\<close>

definition getitem_dict :: "('k \<times> 'v) list \<Rightarrow> 'k \<Rightarrow> error + 'v" where
  "getitem_dict d k = (case map_of d k of None \<Rightarrow> Inl KeyError | Some v \<Rightarrow> Inr v)"

definition dict_update :: "('k \<times> 'v) list \<Rightarrow> ('k \<times> 'v) list \<Rightarrow> ('k \<times> 'v) list" where
  "dict_update d e = fold (\<lambda>(k, v). AList.update k v) e d"

definition select_keys :: "params \<Rightarrow> string list \<Rightarrow> error + params" where
  "select_keys d ks =
     bindE (mapE (\<lambda>k. bindE (getitem_dict d k) (\<lambda>v. Inr (k, v))) ks) (\<lambda>kvs. Inr (dict_update [] kvs))"

subsection \<open>The handlers of \<^verbatim>\<open>DualTransform\<close>\<close>

text \<open>
  \<^verbatim>\<open>apply_to_bboxes\<close> and \<^verbatim>\<open>apply_to_keypoints\<close> walk the rows of the record array
  (\<open>np_row a i\<close> is row \<open>i\<close> of a two-dimensional \<open>a\<close>) and assign each result back to
  its row, as a one-dimensional array of the values returned. A non-empty array of another
  dimension cannot be the \<^verbatim>\<open>array\<close> of a batch (\<^verbatim>\<open>__setattr__\<close> refuses it) and
  is not modelled.
\<close>

definition np_row :: "'a ndarray \<Rightarrow> nat \<Rightarrow> 'a list" where
  "np_row a i = take (last (shape a)) (drop (i * last (shape a)) (elems a))"

fun rows_loop ::
  "(real list \<Rightarrow> params \<Rightarrow> error + real list) \<Rightarrow> params \<Rightarrow> nat list \<Rightarrow> real ndarray \<Rightarrow>
   error + real ndarray" where
  "rows_loop f ps [] a = Inr a"
| "rows_loop f ps (i # js) a =
     bindE (f (np_row a i) ps) (\<lambda>r.
     bindE (np_setitem a (Idx (int i)) (NdArray [length r] r)) (\<lambda>a'.
       rows_loop f ps js a'))"

definition apply_to_rows ::
  "(real list \<Rightarrow> params \<Rightarrow> error + real list) \<Rightarrow> pyvalue \<Rightarrow> params \<Rightarrow> error + pyvalue" where
  "apply_to_rows f arg ps =
     (case arg of
        VBatch b \<Rightarrow>
          bindE (case shape (array b) of
                   [] \<Rightarrow> Inl TypeError
                 | [n, w] \<Rightarrow> rows_loop f ps [0..<n] (array b)
                 | n # _ \<Rightarrow> if n = 0 then Inr (array b) else Inl Unmodelled) (\<lambda>a'.
            Inr (VBatch (Batch (kind_of b) a' (targets b))))
      | _ \<Rightarrow> Inl AttributeError)"

definition apply_to_bboxes :: "'g transform \<Rightarrow> pyvalue \<Rightarrow> params \<Rightarrow> error + pyvalue" where
  "apply_to_bboxes t bboxes ps = apply_to_rows (apply_to_bbox t) bboxes ps"

definition apply_to_keypoints :: "'g transform \<Rightarrow> pyvalue \<Rightarrow> params \<Rightarrow> error + pyvalue" where
  "apply_to_keypoints t keypoints ps = apply_to_rows (apply_to_keypoint t) keypoints ps"

text \<open>\<^verbatim>\<open>cv2.INTER_NEAREST\<close>, the nearest-neighbour flag of OpenCV, is the integer 0.\<close>

definition INTER_NEAREST :: pyvalue where
  "INTER_NEAREST = VInt 0"

definition apply_to_mask :: "'g transform \<Rightarrow> pyvalue \<Rightarrow> params \<Rightarrow> error + pyvalue" where
  "apply_to_mask t img ps =
     apply_img t img (map (\<lambda>(k, v). (k, if k = ''interpolation'' then INTER_NEAREST else v)) ps)"

text \<open>
  Keyword binding. A call \<^verbatim>\<open>f(arg, **kw)\<close> raises \<^verbatim>\<open>TypeError\<close> (multiple values
  for an argument) when \<open>kw\<close> has a key that names a positional parameter of \<open>f\<close>. A
  handler is the positional parameter names of a function of this file together with its
  body; \<open>call_handler\<close> is the call. The functions that a subclass overrides
  (\<^verbatim>\<open>apply\<close>, \<^verbatim>\<open>apply_to_bbox\<close>, \<^verbatim>\<open>apply_to_keypoint\<close>) have the parameters that
  the subclass gives them: for these the function in the record is the whole call, binding
  included, and their handlers name no parameter.
\<close>

type_synonym handler = "string list \<times> (pyvalue \<Rightarrow> params \<Rightarrow> error + pyvalue)"

definition call_handler ::
  "string list \<times> ('a \<Rightarrow> params \<Rightarrow> error + 'b) \<Rightarrow> 'a \<Rightarrow> params \<Rightarrow> error + 'b" where
  "call_handler h arg kw =
     (if list_ex (\<lambda>k. k \<in> set (fst h)) (map fst kw) then Inl TypeError else snd h arg kw)"

text \<open>
  \<^verbatim>\<open>apply_to_masks\<close> iterates its argument and calls
  \<^verbatim>\<open>self.apply_to_mask(mask, **params)\<close> on every element. A list and \<^verbatim>\<open>None\<close> or an
  integer (not iterable) are modelled; iteration over an array, a batch or a dictionary is
  not.
\<close>

definition apply_to_masks :: "'g transform \<Rightarrow> pyvalue \<Rightarrow> params \<Rightarrow> error + pyvalue" where
  "apply_to_masks t masks ps =
     (case masks of
        VList ms \<Rightarrow>
          bindE (mapE (\<lambda>m. call_handler ([''self'', ''img''], apply_to_mask t) m ps) ms)
            (\<lambda>rs. Inr (VList rs))
      | VNone \<Rightarrow> Inl TypeError
      | VInt _ \<Rightarrow> Inl TypeError
      | _ \<Rightarrow> Inl Unmodelled)"

subsection \<open>Dispatch\<close>

text \<open>
  The \<^verbatim>\<open>targets\<close> property: not implemented in \<^verbatim>\<open>BasicTransform\<close>, one entry in
  \<^verbatim>\<open>ImageOnlyTransform\<close>, five in \<^verbatim>\<open>DualTransform\<close>.
\<close>

definition transform_targets :: "'g transform \<Rightarrow> error + (string \<times> handler) list" where
  "transform_targets t =
     (case profile t of
        BasicProfile \<Rightarrow> Inl NotImplementedError
      | ImageOnly \<Rightarrow> Inr [(''image'', ([], apply_img t))]
      | Dual \<Rightarrow>
          Inr [(''image'', ([], apply_img t)),
               (''mask'', ([''self'', ''img''], apply_to_mask t)),
               (''masks'', ([''self'', ''masks''], apply_to_masks t)),
               (''bboxes'', ([''self'', ''bboxes''], apply_to_bboxes t)),
               (''keypoints'', ([''self'', ''keypoints''], apply_to_keypoints t))])"

text \<open>
  The local \<^verbatim>\<open>transform_key\<close> of \<^verbatim>\<open>_get_target_function\<close>, and the function; its
  default is \<^verbatim>\<open>lambda x, **p: x\<close>.
\<close>

definition transform_key :: "'g transform \<Rightarrow> string \<Rightarrow> string" where
  "transform_key t key =
     (if map_of (additional_targets t) key \<noteq> None
      then (case map_of (additional_targets t) key of None \<Rightarrow> key | Some k \<Rightarrow> k)
      else key)"

definition get_target_function :: "'g transform \<Rightarrow> string \<Rightarrow> error + handler" where
  "get_target_function t key =
     bindE (transform_targets t) (\<lambda>tbl.
       Inr (case map_of tbl (transform_key t key) of
              None \<Rightarrow> ([''x''], (\<lambda>x ps. Inr x))
            | Some f \<Rightarrow> f))"

definition add_targets :: "'g transform \<Rightarrow> (string \<times> string) list \<Rightarrow> 'g transform" where
  "add_targets t new_targets = t\<lparr>additional_targets := new_targets\<rparr>"

definition set_deterministic :: "'g transform \<Rightarrow> bool \<Rightarrow> string \<Rightarrow> error + 'g transform" where
  "set_deterministic t flag key =
     (if key = ''params'' then Inl AssertionError
      else Inr (t\<lparr>deterministic := flag, save_key := key\<rparr>))"

text \<open>\<^verbatim>\<open>x.shape\<close>: only an array has the attribute.\<close>

definition shape_of :: "pyvalue \<Rightarrow> error + nat list" where
  "shape_of x = (case x of VArr a \<Rightarrow> Inr (shape a) | _ \<Rightarrow> Inl AttributeError)"

definition update_params :: "'g transform \<Rightarrow> params \<Rightarrow> params \<Rightarrow> error + params" where
  "update_params t ps kwargs =
     (let ps1 = (case interpolation t of None \<Rightarrow> ps | Some v \<Rightarrow> AList.update ''interpolation'' v ps);
          ps2 = (case fill_value t of None \<Rightarrow> ps1 | Some v \<Rightarrow> AList.update ''fill_value'' v ps1);
          ps3 = (case mask_fill_value t of None \<Rightarrow> ps2
                 | Some v \<Rightarrow> AList.update ''mask_fill_value'' v ps2)
      in bindE (getitem_dict kwargs ''image'') (\<lambda>img.
         bindE (shape_of img) (\<lambda>sh.
           if length sh < 2 then Inl IndexError
           else Inr (dict_update ps3
                  [(''cols'', VInt (int (sh ! 1))), (''rows'', VInt (int (sh ! 0)))]))))"

text \<open>
  The loop of \<^verbatim>\<open>apply_with_params\<close> over \<^verbatim>\<open>kwargs.items()\<close>; line 269 passes the
  merged parameters to the handler as keyword arguments.
\<close>

fun dispatch :: "'g transform \<Rightarrow> params \<Rightarrow> params \<Rightarrow> params \<Rightarrow> error + params" where
  "dispatch t ps kwargs [] = Inr []"
| "dispatch t ps kwargs ((key, arg) # rest) =
     bindE (case arg of
              VNone \<Rightarrow> Inr VNone
            | _ \<Rightarrow>
                bindE (get_target_function t key) (\<lambda>target_function.
                bindE (select_keys kwargs
                         (case map_of (target_dependence t) key of None \<Rightarrow> [] | Some ks \<Rightarrow> ks))
                  (\<lambda>target_dependencies.
                  call_handler target_function arg (dict_update ps target_dependencies)))) (\<lambda>r.
     bindE (dispatch t ps kwargs rest) (\<lambda>res.
       Inr ((key, r) # res)))"

text \<open>
  \<^verbatim>\<open>self.apply_with_params(params, **kwargs)\<close>: the named data are keyword arguments of
  this call too, so data named \<^verbatim>\<open>params\<close> or \<^verbatim>\<open>self\<close> collide with its parameters
  (the reason why \<^verbatim>\<open>set_deterministic\<close> reserves the save key \<^verbatim>\<open>params\<close>). The call
  of \<^verbatim>\<open>update_params\<close> inside binds the same names again.
\<close>

definition apply_with_params :: "'g transform \<Rightarrow> params option \<Rightarrow> params \<Rightarrow> error + params" where
  "apply_with_params t pso kwargs =
     (if list_ex (\<lambda>k. k \<in> set [''self'', ''params'']) (map fst kwargs) then Inl TypeError
      else case pso of
        None \<Rightarrow> Inr kwargs
      | Some ps \<Rightarrow> bindE (update_params t ps kwargs) (\<lambda>ps'. dispatch t ps' kwargs kwargs))"

subsection \<open>The call\<close>

text \<open>
  The parameters of a firing call: \<^verbatim>\<open>get_params()\<close>, updated with the parameters that
  depend on targets when the transform names any.
\<close>

definition generate_params :: "'g transform \<Rightarrow> 'g \<Rightarrow> params \<Rightarrow> error + params" where
  "generate_params t g kwargs =
     bindE (get_params t g) (\<lambda>ps.
       if targets_as_params t \<noteq> [] then
         (if \<not> list_all (\<lambda>key. map_of kwargs key \<noteq> None) (targets_as_params t)
          then Inl AssertionError
          else bindE (select_keys kwargs (targets_as_params t)) (\<lambda>tp.
               bindE (get_params_dependent_on_targets t g tp) (\<lambda>dp.
                 Inr (dict_update ps dp))))
       else Inr ps)"

text \<open>
  \<^verbatim>\<open>store[key] = v\<close> for the object found under the save key. A dictionary takes the
  entry; a list takes it at an index in range; \<^verbatim>\<open>None\<close> and an integer support no item
  assignment; a batch's \<^verbatim>\<open>__setitem__\<close> asks the dictionary \<open>v\<close> for its
  \<^verbatim>\<open>array\<close>. Assignment of a dictionary into a numeric array is not modelled.
\<close>

definition store_item :: "pyvalue \<Rightarrow> nat \<Rightarrow> pyvalue \<Rightarrow> error + pyvalue" where
  "store_item store key v =
     (case store of
        VDict d \<Rightarrow> Inr (VDict (AList.update (Inr key) v d))
      | VList xs \<Rightarrow> if key < length xs then Inr (VList (xs[key := v])) else Inl IndexError
      | VNone \<Rightarrow> Inl TypeError
      | VInt _ \<Rightarrow> Inl TypeError
      | VBatch _ \<Rightarrow> Inl AttributeError
      | VArr _ \<Rightarrow> Inl Unmodelled)"

text \<open>
  Lines 249 to 255: with \<^verbatim>\<open>deterministic\<close> set, a deep copy of the parameters goes
  into \<^verbatim>\<open>kwargs[self.save_key]\<close> under \<^verbatim>\<open>id(self)\<close>. The copy is the value \<open>ps\<close>
  itself: what \<^verbatim>\<open>update_params\<close> adds later does not reach it. The warning is not
  modelled.
\<close>

definition params_value :: "params \<Rightarrow> pyvalue" where
  "params_value ps = VDict (map (\<lambda>(k, v). (Inl k, v)) ps)"

definition record_params :: "'g transform \<Rightarrow> params \<Rightarrow> params \<Rightarrow> error + params" where
  "record_params t ps kwargs =
     (if deterministic t then
        bindE (getitem_dict kwargs (save_key t)) (\<lambda>store.
        bindE (store_item store (ident t) (params_value ps)) (\<lambda>store'.
          Inr (AList.update (save_key t) store' kwargs)))
      else Inr kwargs)"

definition fire :: "'g transform \<Rightarrow> 'g \<Rightarrow> params \<Rightarrow> error + params" where
  "fire t g kwargs =
     bindE (generate_params t g kwargs) (\<lambda>ps.
     bindE (record_params t ps kwargs) (\<lambda>kwargs'.
       apply_with_params t (Some ps) kwargs'))"

text \<open>
  \<^verbatim>\<open>BasicTransform.__call__\<close>: \<open>args\<close> are the positional arguments, \<open>kwargs\<close> the
  named data, \<open>r\<close> the value that \<^verbatim>\<open>random.random()\<close> returns and \<open>g\<close> the random
  state behind it. \<open>fires\<close> is the condition of line 239.
\<close>

definition fires :: "'g transform \<Rightarrow> bool \<Rightarrow> real \<Rightarrow> bool" where
  "fires t force_apply r = (r < p t \<or> always_apply t \<or> force_apply)"

definition call ::
  "'g transform \<Rightarrow> pyvalue list \<Rightarrow> bool \<Rightarrow> params \<Rightarrow> real \<Rightarrow> 'g \<Rightarrow> error + params" where
  "call t args force_apply kwargs r g =
     (if args \<noteq> [] then Inl KeyError
      else if replay_mode t then
        (if applied_in_replay t then apply_with_params t (params t) kwargs else Inr kwargs)
      else if fires t force_apply r then fire t g kwargs
      else Inr kwargs)"

subsection \<open>Construction\<close>

text \<open>
  \<^verbatim>\<open>BasicTransform.__init__(always_apply, p)\<close> with the members of
  \<^verbatim>\<open>BasicTransform\<close> as the class defines them: \<^verbatim>\<open>apply(self, img, **params)\<close>,
  \<^verbatim>\<open>apply_to_bbox(self, bbox, **params)\<close>, \<^verbatim>\<open>apply_to_keypoint(self, keypoint, **params)\<close>
  (the latter two are declared in \<^verbatim>\<open>DualTransform\<close>) and
  \<^verbatim>\<open>get_params_dependent_on_targets\<close> raise \<^verbatim>\<open>NotImplementedError\<close>,
  \<^verbatim>\<open>get_params\<close> returns the empty dictionary, \<^verbatim>\<open>targets_as_params\<close> and
  \<^verbatim>\<open>target_dependence\<close> are empty, and no interpolation or fill value is set.
  \<open>dual_init\<close> is the same for \<^verbatim>\<open>DualTransform\<close>.
\<close>

definition basic_init :: "bool \<Rightarrow> real \<Rightarrow> nat \<Rightarrow> 'g transform" where
  "basic_init always pr i =
     \<lparr> p = pr, always_apply = always, additional_targets = [], deterministic = False,
       save_key = ''replay'', params = Some [], replay_mode = False,
       applied_in_replay = False, ident = i, profile = BasicProfile,
       apply_img = call_handler ([''self'', ''img''], (\<lambda>img ps. Inl NotImplementedError)),
       apply_to_bbox = call_handler ([''self'', ''bbox''], (\<lambda>bbox ps. Inl NotImplementedError)),
       apply_to_keypoint =
         call_handler ([''self'', ''keypoint''], (\<lambda>keypoint ps. Inl NotImplementedError)),
       get_params = (\<lambda>g. Inr []),
       targets_as_params = [],
       get_params_dependent_on_targets = (\<lambda>g ps. Inl NotImplementedError),
       target_dependence = [],
       interpolation = None, fill_value = None, mask_fill_value = None \<rparr>"

definition dual_init :: "bool \<Rightarrow> real \<Rightarrow> nat \<Rightarrow> 'g transform" where
  "dual_init always pr i = (basic_init always pr i)\<lparr>profile := Dual\<rparr>"

text \<open>
  A concrete subclass of \<^verbatim>\<open>DualTransform\<close> for the examples: \<^verbatim>\<open>get_params\<close> draws
  an integer \<^verbatim>\<open>dx\<close> (the random state itself), and \<^verbatim>\<open>apply\<close> and
  \<^verbatim>\<open>apply_to_bbox\<close>, with the parameters of the base class, add it to every pixel and
  to every coordinate.
\<close>

definition shift_by :: "params \<Rightarrow> error + real" where
  "shift_by ps =
     (case map_of ps ''dx'' of Some (VInt d) \<Rightarrow> Inr (real_of_int d) | _ \<Rightarrow> Inl KeyError)"

definition shift_transform :: "real \<Rightarrow> nat \<Rightarrow> int transform" where
  "shift_transform pr i =
     (dual_init False pr i)
       \<lparr> apply_img := call_handler ([''self'', ''img''], (\<lambda>img ps. bindE (shift_by ps) (\<lambda>d.
            case img of
              VArr a \<Rightarrow> Inr (VArr (NdArray (shape a) (map (\<lambda>x. x + d) (elems a))))
            | _ \<Rightarrow> Inl TypeError))),
         apply_to_bbox := call_handler ([''self'', ''bbox''],
            (\<lambda>bbox ps. bindE (shift_by ps) (\<lambda>d. Inr (map (\<lambda>x. x + d) bbox)))),
         get_params := (\<lambda>g. Inr [(''dx'', VInt g)]) \<rparr>"

lemmas shift_defs =
  shift_transform_def dual_init_def basic_init_def shift_by_def call_handler_def

lemmas call_defs =
  call_def fires_def fire_def generate_params_def record_params_def apply_with_params_def
  update_params_def getitem_dict_def shape_of_def dict_update_def select_keys_def
  get_target_function_def transform_targets_def transform_key_def call_handler_def bindE_def

lemmas batch_defs =
  batch_ok_def wf_array_def check_consistency_def assert_array_format_def np_len_def
  width_ok_def bindE_def

lemmas setitem_defs =
  setitem_def np_setitem_def np_setitem_object_def norm_index_def write_block_def
  np_broadcast_def bindE_def

section \<open>Construction of a batch from a plain sequence\<close>

text \<open>
  C3. A Boxes batch built from a nested plain sequence of width-4 records, metadata
  omitted, should be coerced to an N-by-4 float matrix with a synthesized zero-column
  metadata matrix. The coercion of \<^verbatim>\<open>__post_init__\<close> is never reached:
  \<^verbatim>\<open>__init__\<close> stores the argument through \<^verbatim>\<open>__setattr__\<close>, whose format check
  raises \<^verbatim>\<open>TypeError\<close> for everything that is not an ndarray, whatever numpy's coercion
  would have made of it and whatever the metadata argument is.
\<close>

theorem construct_plain_sequence_rejected:
  "construct k np_float np_object (Some (Plain s)) targets_arg = Inl TypeError"
  by (simp add: construct_def setattr_array_def assert_array_format_def bindE_def)

text \<open>
  What the claim describes does happen when the records already are an ndarray of shape
  \<open>(n + 1, 4)\<close>.
\<close>

lemma construct_ndarray:
  "construct Boxes np_float np_object (Some (Nd (NdArray [Suc n, 4] es))) None =
     Inr (Batch Boxes (NdArray [Suc n, 4] es) (NdArray [Suc n, 0] []))"
  by (simp add: construct_def post_init_def setattr_array_def assert_array_format_def
      check_consistency_def np_len_def width_ok_def bindE_def)

section \<open>Range normalisation\<close>

text \<open>
  C6. \<^verbatim>\<open>to_tuple(v)\<close> is \<open>(-v, v)\<close> for a number \<open>v\<close>; a 2-element sequence comes
  back with its two elements in their order; with an anchor \<open>a\<close> and a number \<open>v\<close> the
  smaller value comes first; and \<^verbatim>\<open>None\<close> gives \<^verbatim>\<open>None\<close>.
\<close>

theorem to_tuple_normalises:
  "to_tuple (PNum v) None None = Inr (PSeq [PNum (- v), PNum v])
   \<and> to_tuple (PSeq [x, y]) low None = Inr (PSeq [x, y])
   \<and> to_tuple (PNum v) (Some a) None = Inr (PSeq [PNum (min a v), PNum (max a v)])
   \<and> to_tuple PNone low None = Inr PNone
   \<and> to_tuple PNone None bias = Inr PNone"
  by (auto simp: to_tuple_def bindE_def min_def max_def)

section \<open>Equality of batches\<close>

lemma len0_targets:
  assumes "check_consistency b = Inr ()" "np_len (array b) = Inr 0"
  shows "np_len (targets b) = Inr 0"
  using assms by (auto simp: check_consistency_def bindE_def split: sum.splits if_splits)

text \<open>
  C9. Two valid batches of the same kind with no records are equal, whatever the shapes
  of their arrays; a batch compared with a batch of the other kind, or with an object
  that is no batch, raises \<^verbatim>\<open>TypeError\<close>.
\<close>

theorem empty_batches_equal:
  "(kind_of a = kind_of b \<and> check_consistency a = Inr () \<and> check_consistency b = Inr ()
      \<and> np_len (array a) = Inr 0 \<and> np_len (array b) = Inr 0
     \<longrightarrow> batch_eq a (OBatch b) = Inr True)
   \<and> (kind_of b \<noteq> kind_of a \<longrightarrow> batch_eq a (OBatch b) = Inl TypeError)
   \<and> batch_eq a ONotBatch = Inl TypeError"
  by (auto simp: batch_eq_def bindE_def dest!: len0_targets)

text \<open>
  The empty Boxes batches of shapes \<open>(0, 4)\<close> and \<open>(0,)\<close> are equal, and a Boxes batch
  is not comparable with a Keypoints batch.
\<close>

theorem empty_batches_equal_witness:
  "batch_eq (Batch Boxes (NdArray [0, 4] []) (NdArray [0, 0] []))
     (OBatch (Batch Boxes (NdArray [0] []) (NdArray [0, 0] ([] :: string list)))) = Inr True
   \<and> batch_eq (Batch Boxes (NdArray [0, 4] []) (NdArray [0, 0] []))
     (OBatch (Batch Keypoints (NdArray [0, 4] []) (NdArray [0, 0] ([] :: string list))))
       = Inl TypeError"
proof -
  let ?a = "Batch Boxes (NdArray [0, 4] []) (NdArray [0, 0] ([] :: string list))"
  let ?b = "Batch Boxes (NdArray [0] []) (NdArray [0, 0] ([] :: string list))"
  let ?k = "Batch Keypoints (NdArray [0, 4] []) (NdArray [0, 0] ([] :: string list))"
  have ab: "kind_of ?a = kind_of ?b \<and> check_consistency ?a = Inr ()
      \<and> check_consistency ?b = Inr ()
      \<and> np_len (array ?a) = Inr 0 \<and> np_len (array ?b) = Inr 0"
    by (simp add: check_consistency_def assert_array_format_def np_len_def bindE_def)
  have k: "kind_of ?k \<noteq> kind_of ?a" by simp
  from empty_batches_equal [of ?a ?b] ab empty_batches_equal [of ?a ?k] k
  show ?thesis by blast
qed

section \<open>Masks\<close>

lemma map_fst_override: "map fst (map (\<lambda>(k, v). (k, h k v)) ps) = map fst ps"
  by (induction ps) auto

lemma map_of_override:
  "map_of (map (\<lambda>(k, v). (k, if k = k0 then c else v)) ps) k =
     (if k = k0 then map_option (\<lambda>_. c) (map_of ps k) else map_of ps k)"
  by (induction ps) auto

text \<open>
  C7. \<^verbatim>\<open>apply_to_mask\<close> calls \<^verbatim>\<open>apply\<close> with a parameter mapping that has the keys
  of the given one in the same order, in which \<^verbatim>\<open>interpolation\<close>, where present, is
  bound to the nearest-neighbour mode whatever it was bound to, and every other key is
  bound as before.
\<close>

theorem apply_to_mask_forces_nearest:
  "\<exists>ps'. apply_to_mask t img ps = apply_img t img ps'
     \<and> map fst ps' = map fst ps
     \<and> (\<forall>k. map_of ps' k =
           (if k = ''interpolation'' then map_option (\<lambda>_. INTER_NEAREST) (map_of ps k)
            else map_of ps k))"
  unfolding apply_to_mask_def
  apply (rule exI)
  apply (intro conjI allI)
    apply (rule refl)
   apply (rule map_fst_override)
  apply (rule map_of_override)
  done

section \<open>Additional targets\<close>

text \<open>
  C2, as the code has it. \<^verbatim>\<open>add_targets\<close> assigns the table, so after
  \<^verbatim>\<open>add_targets(m1)\<close> and \<^verbatim>\<open>add_targets(m2)\<close> the table is \<open>m2\<close>: a key resolves to
  its kind in \<open>m2\<close>, and a key that \<open>m2\<close> does not have resolves to itself, whether \<open>m1\<close>
  had it or not.
\<close>

theorem add_targets_replaces_table:
  "additional_targets (add_targets (add_targets t m1) m2) = m2
   \<and> transform_key (add_targets (add_targets t m1) m2) key =
       (case map_of m2 key of None \<Rightarrow> key | Some c \<Rightarrow> c)"
  by (auto simp: add_targets_def transform_key_def split: option.splits)

text \<open>
  C2, as the claim states it, fails: after \<^verbatim>\<open>add_targets({"image2": "image"})\<close> and
  \<^verbatim>\<open>add_targets({"mask2": "mask"})\<close> the table is not the merge of the two mappings, and
  \<^verbatim>\<open>image2\<close> no longer resolves to \<^verbatim>\<open>image\<close>.
\<close>

theorem add_targets_merge_counterexample:
  "\<not> (map_of (additional_targets
           (add_targets (add_targets (basic_init False (1 / 2) 0 :: unit transform)
              [(''image2'', ''image'')]) [(''mask2'', ''mask'')]))
        = map_of [(''image2'', ''image'')] ++ map_of [(''mask2'', ''mask'')])
   \<and> transform_key
         (add_targets (add_targets (basic_init False (1 / 2) 0 :: unit transform)
            [(''image2'', ''image'')]) [(''mask2'', ''mask'')]) ''image2'' \<noteq> ''image''"
  apply (rule conjI)
  subgoal
    apply (rule notI)
    apply (drule_tac x = "''image2''" in fun_cong)
    apply (simp add: add_targets_def basic_init_def)
    done
  subgoal by (simp add: add_targets_def transform_key_def basic_init_def)
  done

section \<open>The call: replay and the probability gate\<close>

text \<open>
  C5. In replay mode a transform that was not applied in the recorded pass returns the
  named data as it got them, whatever they are and whatever the methods of the transform
  would do: nothing of the transform runs.
\<close>

theorem replay_not_applied_returns_input:
  "replay_mode t \<Longrightarrow> \<not> applied_in_replay t \<Longrightarrow>
   call t [] force_apply kwargs r g = Inr kwargs"
  by (simp add: call_def)

text \<open>
  A transform whose \<^verbatim>\<open>targets\<close> and \<^verbatim>\<open>apply\<close> raise, called with
  \<^verbatim>\<open>force_apply\<close> on an image that has no shape.
\<close>

theorem replay_not_applied_returns_input_witness:
  "call ((basic_init False (1 / 2) 0 :: unit transform)\<lparr>replay_mode := True\<rparr>) [] True
     [(''image'', VInt 0), (''bboxes'', VNone)] 0 () =
   Inr [(''image'', VInt 0), (''bboxes'', VNone)]"
proof -
  let ?t = "(basic_init False (1 / 2) 0 :: unit transform)\<lparr>replay_mode := True\<rparr>"
  have "replay_mode ?t" "\<not> applied_in_replay ?t" by (simp_all add: basic_init_def)
  from replay_not_applied_returns_input [OF this] show ?thesis .
qed

text \<open>
  C8, as the code has it. For a transform that is not in replay mode (the gate of line
  239 is reached only then): with \<open>p = 1\<close> it fires on every draw of
  \<^verbatim>\<open>random.random()\<close>, which lies in \<open>[0, 1)\<close>, and the call is the firing path; with
  \<open>p = 0\<close>, not always applied and called without \<^verbatim>\<open>force_apply\<close>, it fires on none
  and returns the named data unchanged.
\<close>

theorem probability_gate:
  "(\<not> replay_mode t \<and> p t = 1 \<and> 0 \<le> r \<and> r < 1 \<longrightarrow>
      fires t force_apply r \<and> call t [] force_apply kwargs r g = fire t g kwargs)
   \<and> (\<not> replay_mode t \<and> p t = 0 \<and> \<not> always_apply t \<and> 0 \<le> r \<and> r < 1 \<longrightarrow>
      \<not> fires t False r \<and> call t [] False kwargs r g = Inr kwargs)"
  by (simp add: call_def fires_def)

text \<open>
  The draw \<open>1/2\<close>: the transform built with \<open>p = 1\<close> fires, the one built with
  \<open>p = 0\<close> hands the data back.
\<close>

theorem probability_gate_witness:
  "fires (basic_init False 1 0 :: unit transform) False (1 / 2)
   \<and> call (basic_init False 1 0 :: unit transform) [] False [(''image'', VNone)] (1 / 2) ()
       = fire (basic_init False 1 0) () [(''image'', VNone)]
   \<and> \<not> fires (basic_init False 0 0 :: unit transform) False (1 / 2)
   \<and> call (basic_init False 0 0 :: unit transform) [] False [(''image'', VNone)] (1 / 2) ()
       = Inr [(''image'', VNone)]"
proof -
  have a: "\<not> replay_mode (basic_init False 1 0 :: unit transform)
     \<and> p (basic_init False 1 0 :: unit transform) = 1
     \<and> (0::real) \<le> 1 / 2 \<and> (1::real) / 2 < 1"
    by (simp add: basic_init_def)
  have b: "\<not> replay_mode (basic_init False 0 0 :: unit transform)
     \<and> p (basic_init False 0 0 :: unit transform) = 0
     \<and> \<not> always_apply (basic_init False 0 0 :: unit transform)
     \<and> (0::real) \<le> 1 / 2 \<and> (1::real) / 2 < 1"
    by (simp add: basic_init_def)
  from probability_gate [of "basic_init False 1 0 :: unit transform" "1 / 2" False
      "[(''image'', VNone)]" "()"] a
    probability_gate [of "basic_init False 0 0 :: unit transform" "1 / 2" False
      "[(''image'', VNone)]" "()"] b
  show ?thesis by blast
qed

text \<open>
  C8, as the claim states it, fails for a transform in replay mode, where lines 233 to 237
  return before the gate. With \<open>p = 1\<close>, not applied in the recorded pass, the call hands
  the image back although the firing path would shift it; with \<open>p = 0\<close>, not always
  applied, no \<^verbatim>\<open>force_apply\<close>, applied in the recorded pass with \<^verbatim>\<open>dx = 3\<close>, the
  call returns the shifted image, not the input.
\<close>

theorem probability_gate_counterexample:
  "p ((shift_transform 1 7)\<lparr>replay_mode := True\<rparr>) = 1
   \<and> \<not> always_apply ((shift_transform 1 7)\<lparr>replay_mode := True\<rparr>)
   \<and> call ((shift_transform 1 7)\<lparr>replay_mode := True\<rparr>) [] False
        [(''image'', VArr (NdArray [2, 2] [0, 0, 0, 0]))] (1 / 2) 3
      = Inr [(''image'', VArr (NdArray [2, 2] [0, 0, 0, 0]))]
   \<and> fire ((shift_transform 1 7)\<lparr>replay_mode := True\<rparr>) 3
        [(''image'', VArr (NdArray [2, 2] [0, 0, 0, 0]))]
      = Inr [(''image'', VArr (NdArray [2, 2] [3, 3, 3, 3]))]
   \<and> p ((shift_transform 0 7)\<lparr>replay_mode := True, applied_in_replay := True,
           params := Some [(''dx'', VInt 3)]\<rparr>) = 0
   \<and> \<not> always_apply ((shift_transform 0 7)\<lparr>replay_mode := True, applied_in_replay := True,
           params := Some [(''dx'', VInt 3)]\<rparr>)
   \<and> call ((shift_transform 0 7)\<lparr>replay_mode := True, applied_in_replay := True,
           params := Some [(''dx'', VInt 3)]\<rparr>) [] False
        [(''image'', VArr (NdArray [2, 2] [0, 0, 0, 0]))] (1 / 2) 3
      = Inr [(''image'', VArr (NdArray [2, 2] [3, 3, 3, 3]))]"
  by (simp add: call_defs shift_defs)

section \<open>Recording the parameters\<close>

text \<open>
  C10. A deterministic transform that fires needs an entry under its save key in the
  named data: without one the call raises \<^verbatim>\<open>KeyError\<close>, with \<^verbatim>\<open>None\<close> under the key
  it raises \<^verbatim>\<open>TypeError\<close>, and with a dictionary the generated parameters, as they are
  before \<^verbatim>\<open>update_params\<close> extends them, are entered under \<^verbatim>\<open>id(self)\<close> and the call
  goes on with the data that hold the extended dictionary.
\<close>

theorem deterministic_records_under_save_key:
  assumes "\<not> replay_mode t" "deterministic t" "fires t force_apply r"
    and "generate_params t g kwargs = Inr ps"
  shows "(map_of kwargs (save_key t) = None \<longrightarrow>
            call t [] force_apply kwargs r g = Inl KeyError)
     \<and> (map_of kwargs (save_key t) = Some VNone \<longrightarrow>
            call t [] force_apply kwargs r g = Inl TypeError)
     \<and> (\<forall>d. map_of kwargs (save_key t) = Some (VDict d) \<longrightarrow>
          call t [] force_apply kwargs r g =
            apply_with_params t (Some ps)
              (AList.update (save_key t)
                 (VDict (AList.update (Inr (ident t)) (params_value ps) d)) kwargs))"
  using assms
  by (simp add: call_def fire_def record_params_def getitem_dict_def store_item_def bindE_def)

text \<open>
  The shifting transform with identity 7, made deterministic, draws \<^verbatim>\<open>dx = 3\<close>: without a
  \<^verbatim>\<open>replay\<close> entry and with \<^verbatim>\<open>replay=None\<close> the call fails; with \<^verbatim>\<open>replay={}\<close> the
  returned store holds \<^verbatim>\<open>{7: {"dx": 3}}\<close>, without the rows and columns that
  \<^verbatim>\<open>update_params\<close> adds for the handlers.
\<close>

theorem deterministic_records_under_save_key_witness:
  "call ((shift_transform 1 7)\<lparr>deterministic := True\<rparr>) [] False
      [(''image'', VArr (NdArray [2, 2] [0, 0, 0, 0]))] (1 / 2) 3 = Inl KeyError
   \<and> call ((shift_transform 1 7)\<lparr>deterministic := True\<rparr>) [] False
      [(''image'', VArr (NdArray [2, 2] [0, 0, 0, 0])), (''replay'', VNone)] (1 / 2) 3
       = Inl TypeError
   \<and> call ((shift_transform 1 7)\<lparr>deterministic := True\<rparr>) [] False
      [(''image'', VArr (NdArray [2, 2] [0, 0, 0, 0])), (''replay'', VDict [])] (1 / 2) 3 =
     Inr [(''image'', VArr (NdArray [2, 2] [3, 3, 3, 3])),
          (''replay'', VDict [(Inr 7, VDict [(Inl ''dx'', VInt 3)])])]"
proof -
  let ?t = "(shift_transform 1 7)\<lparr>deterministic := True\<rparr>"
  let ?img = "(''image'', VArr (NdArray [2, 2] [0, 0, 0, 0]))"
  have t: "\<not> replay_mode ?t" "deterministic ?t" "fires ?t False (1 / 2)"
    by (simp_all add: shift_defs fires_def)
  have g: "generate_params ?t 3 kw = Inr [(''dx'', VInt 3)]" for kw
    by (simp add: generate_params_def shift_defs bindE_def)
  have 1: "call ?t [] False [?img] (1 / 2) 3 = Inl KeyError"
    using deterministic_records_under_save_key [OF t g, of "[?img]"]
    by (simp add: shift_defs)
  have 2: "call ?t [] False [?img, (''replay'', VNone)] (1 / 2) 3 = Inl TypeError"
    using deterministic_records_under_save_key [OF t g, of "[?img, (''replay'', VNone)]"]
    by (simp add: shift_defs)
  have "call ?t [] False [?img, (''replay'', VDict [])] (1 / 2) 3 =
      apply_with_params ?t (Some [(''dx'', VInt 3)])
        (AList.update (save_key ?t)
           (VDict (AList.update (Inr (ident ?t)) (params_value [(''dx'', VInt 3)]) []))
           [?img, (''replay'', VDict [])])"
    using deterministic_records_under_save_key [OF t g, of "[?img, (''replay'', VDict [])]"]
    by (simp add: shift_defs)
  also have "\<dots> = Inr [(''image'', VArr (NdArray [2, 2] [3, 3, 3, 3])),
          (''replay'', VDict [(Inr 7, VDict [(Inl ''dx'', VInt 3)])])]"
    by (simp add: shift_defs params_value_def apply_with_params_def update_params_def
        getitem_dict_def shape_of_def dict_update_def bindE_def get_target_function_def
        transform_targets_def transform_key_def select_keys_def call_handler_def)
  finally show ?thesis using 1 2 by simp
qed

section \<open>Array assignment keeps shapes\<close>

lemma length_chunks: "length (chunks k d es) = d"
  by (induction d arbitrary: es) auto

lemma chunks_lengths:
  "d * k \<le> length es \<Longrightarrow> c \<in> set (chunks k d es) \<Longrightarrow> length c = k"
proof (induction d arbitrary: es)
  case 0
  then show ?case by simp
next
  case (Suc d)
  from Suc.prems(1) have k: "k \<le> length es" and d: "d * k \<le> length (drop k es)" by auto
  from Suc.prems(2) have "c = take k es \<or> c \<in> set (chunks k d (drop k es))" by simp
  then show ?case
  proof
    assume "c = take k es"
    then show ?thesis using k by simp
  next
    assume "c \<in> set (chunks k d (drop k es))"
    from Suc.IH [OF d this] show ?thesis .
  qed
qed

lemma concat_chunks: "concat (chunks k d es) = take (d * k) es"
proof (induction d arbitrary: es)
  case 0
  then show ?case by simp
next
  case (Suc d)
  have "take (k + d * k) es = take k es @ take (d * k) (drop k es)"
    by (simp add: take_add)
  with Suc show ?case by simp
qed

lemma length_concat_map:
  "(\<And>x. x \<in> set xs \<Longrightarrow> length (f x) = m) \<Longrightarrow> length (concat (map f xs)) = length xs * m"
  by (induction xs) auto

lemma bcast_length:
  "compatible vs ts \<Longrightarrow> length es = prod_list vs \<Longrightarrow> length (bcast vs ts es) = prod_list ts"
proof (induction vs ts arbitrary: es rule: compatible.induct)
  case 1
  then show ?case by simp
next
  case (2 d ds t ts)
  from "2.prems"(1) have c: "compatible ds ts" and dt: "d = t \<or> d = 1" by auto
  show ?case
  proof (cases "d = t")
    case True
    have "length (concat (map (bcast ds ts) (chunks (prod_list ds) d es)))
        = length (chunks (prod_list ds) d es) * prod_list ts"
    proof (rule length_concat_map)
      fix x
      assume x: "x \<in> set (chunks (prod_list ds) d es)"
      have "length x = prod_list ds"
        using chunks_lengths [OF _ x] "2.prems"(2) by simp
      then show "length (bcast ds ts x) = prod_list ts"
        using "2.IH" [OF c] by simp
    qed
    then show ?thesis using True by (simp add: length_chunks)
  next
    case False
    with dt have d1: "d = 1" by simp
    have "length (bcast ds ts es) = prod_list ts"
      using "2.IH" [OF c] "2.prems"(2) d1 by simp
    then show ?thesis using False by (simp add: length_concat sum_list_replicate)
  qed
qed simp_all

lemma list_all_ones_prod: "list_all (\<lambda>d. d = 1) xs \<Longrightarrow> prod_list xs = (1::nat)"
  by (induction xs) auto

lemma np_broadcast_length:
  assumes "length es = prod_list vs" "np_broadcast vs ts es = Some r"
  shows "length r = prod_list ts"
proof -
  let ?extra = "length vs - length ts"
  let ?vs' = "replicate (length ts - length (drop ?extra vs)) 1 @ drop ?extra vs"
  from assms(2) have ones: "list_all (\<lambda>d. d = 1) (take ?extra vs)"
    and c: "compatible ?vs' ts" and r: "r = bcast ?vs' ts es"
    by (auto simp: np_broadcast_def Let_def split: if_splits)
  have "prod_list vs = prod_list (take ?extra vs) * prod_list (drop ?extra vs)"
    by (metis append_take_drop_id prod_list.append)
  then have "prod_list (drop ?extra vs) = prod_list vs"
    using list_all_ones_prod [OF ones] by simp
  then have "length es = prod_list ?vs'"
    using assms(1) by simp
  from bcast_length [OF c this] r show ?thesis by simp
qed

lemma write_block_shape: "write_block a off block v = Inr a' \<Longrightarrow> shape a' = shape a"
  by (auto simp: write_block_def split: option.splits)

lemma write_block_wf:
  assumes "write_block a off block v = Inr a'" "wf_array v"
    and "off + prod_list block \<le> length (elems a)"
  shows "length (elems a') = length (elems a)"
proof -
  from assms(1) obtain r where r: "np_broadcast (shape v) block (elems v) = Some r"
    and a': "a' = NdArray (shape a) (take off (elems a) @ r @ drop (off + prod_list block) (elems a))"
    by (auto simp: write_block_def split: option.splits)
  have "length r = prod_list block"
    using np_broadcast_length [OF _ r] assms(2) by (simp add: wf_array_def)
  then show ?thesis using a' assms(3) by simp
qed

lemma norm_index_less: "norm_index n i = Inr j \<Longrightarrow> j < n"
  by (auto simp: norm_index_def split: if_splits)

lemma slice_bound_le: "slice_bound n i \<le> n"
  by (auto simp: slice_bound_def max_def)

lemma slice_range_bounds: "slice_range n start stop = (lo, hi) \<Longrightarrow> lo \<le> hi \<and> hi \<le> n"
  by (auto simp: slice_range_def Let_def slice_bound_le split: option.splits)

lemma np_setitem_shape: "np_setitem a idx v = Inr a' \<Longrightarrow> shape a' = shape a"
  by (auto simp: np_setitem_def bindE_def dest: write_block_shape
      split: list.splits index.splits sum.splits prod.splits)

lemma np_setitem_wf:
  assumes "np_setitem a idx v = Inr a'" "wf_array a" "wf_array v"
  shows "wf_array a'"
proof -
  from assms(1) obtain n s where sh: "shape a = n # s"
    by (auto simp: np_setitem_def split: list.splits)
  have len: "length (elems a) = n * prod_list s"
    using assms(2) sh by (simp add: wf_array_def)
  have "length (elems a') = length (elems a)"
  proof (cases idx)
    case (Idx i)
    with assms(1) sh obtain j where j: "norm_index n i = Inr j"
      and w: "write_block a (j * prod_list s) s v = Inr a'"
      by (auto simp: np_setitem_def bindE_def split: sum.splits)
    have "Suc j \<le> n" using norm_index_less [OF j] by simp
    then have "Suc j * prod_list s \<le> n * prod_list s" by (rule mult_le_mono1)
    then have "j * prod_list s + prod_list s \<le> length (elems a)" using len by simp
    from write_block_wf [OF w assms(3) this] show ?thesis .
  next
    case (Slice start stop)
    with assms(1) sh obtain lo hi where r: "slice_range n start stop = (lo, hi)"
      and w: "write_block a (lo * prod_list s) ((hi - lo) # s) v = Inr a'"
      by (auto simp: np_setitem_def split: prod.splits)
    from slice_range_bounds [OF r] have b: "lo \<le> hi" "hi \<le> n" by auto
    have "lo * prod_list s + (hi - lo) * prod_list s = hi * prod_list s"
      using b(1) by (simp add: add_mult_distrib [symmetric])
    moreover have "hi * prod_list s \<le> n * prod_list s" using b(2) by (rule mult_le_mono1)
    ultimately have "lo * prod_list s + prod_list ((hi - lo) # s) \<le> length (elems a)"
      using len by simp
    from write_block_wf [OF w assms(3) this] show ?thesis .
  qed
  moreover have "shape a' = shape a" using np_setitem_shape [OF assms(1)] .
  ultimately show ?thesis using assms(2) by (simp add: wf_array_def)
qed

lemma np_setitem_object_shape:
  "np_setitem_object box a idx v = Inr a' \<Longrightarrow> shape a' = shape a"
  by (auto simp: np_setitem_object_def bindE_def dest: np_setitem_shape
      split: list.splits index.splits sum.splits)

lemma np_setitem_object_wf:
  "np_setitem_object box a idx v = Inr a' \<Longrightarrow> wf_array a \<Longrightarrow> wf_array v \<Longrightarrow> wf_array a'"
  by (auto simp: np_setitem_object_def bindE_def wf_array_def dest: np_setitem_wf [unfolded wf_array_def]
      split: list.splits index.splits sum.splits)

lemma check_consistency_shapes:
  "kind_of b' = kind_of b \<Longrightarrow> shape (array b') = shape (array b) \<Longrightarrow>
   shape (targets b') = shape (targets b) \<Longrightarrow> check_consistency b' = check_consistency b"
  by (auto simp: check_consistency_def assert_array_format_def np_len_def bindE_def
      split: sum.splits list.splits)

lemma setitem_frame:
  "kind_of (snd (setitem box b idx v)) = kind_of b
   \<and> shape (array (snd (setitem box b idx v))) = shape (array b)
   \<and> shape (targets (snd (setitem box b idx v))) = shape (targets b)"
  by (auto simp: setitem_def dest: np_setitem_shape np_setitem_object_shape split: sum.splits)

lemma setitem_wf:
  assumes "wf_array (array b)" "wf_array (targets b)" "wf_array (array v)" "wf_array (targets v)"
  shows "wf_array (array (snd (setitem box b idx v)))
     \<and> wf_array (targets (snd (setitem box b idx v)))"
  using assms
  by (auto simp: setitem_def dest: np_setitem_wf np_setitem_object_wf split: sum.splits)

lemma setitem_batch_ok:
  assumes "batch_ok b" "batch_ok v"
  shows "batch_ok (snd (setitem box b idx v))"
proof -
  let ?b' = "snd (setitem box b idx v)"
  have frame: "kind_of ?b' = kind_of b" "shape (array ?b') = shape (array b)"
    "shape (targets ?b') = shape (targets b)"
    using setitem_frame [of box b idx v] by simp_all
  have "check_consistency ?b' = check_consistency b"
    using frame by (rule check_consistency_shapes)
  moreover have "wf_array (array ?b') \<and> wf_array (targets ?b')"
    using assms by (intro setitem_wf) (simp_all add: batch_ok_def)
  ultimately show ?thesis using assms(1) by (simp add: batch_ok_def)
qed

subsection \<open>One row of a matrix\<close>

lemma bcast_nil: "bcast [] [] = (\<lambda>es. es)"
  by (rule ext) simp

lemma bcast_same_row: "bcast [w] [w] r = take w r"
  by (simp add: bcast_nil concat_chunks)

lemma bcast_fill_row: "w \<noteq> Suc 0 \<Longrightarrow> bcast [Suc 0] [w] es = concat (replicate w es)"
  by simp

lemma np_broadcast_same_row: "length r = w \<Longrightarrow> np_broadcast [w] [w] r = Some r"
  by (simp add: np_broadcast_def bcast_same_row del: bcast.simps)

lemma np_broadcast_one_row:
  "np_broadcast [Suc 0, c] [w] es =
     (if c = w then Some (take w es)
      else if c = Suc 0 then Some (concat (replicate w es)) else None)"
  by (simp add: np_broadcast_def bcast_same_row bcast_fill_row del: bcast.simps)

lemma np_broadcast_leading:
  "2 \<le> length vs \<Longrightarrow> hd vs \<noteq> 1 \<Longrightarrow> np_broadcast vs [w] es = None"
  by (cases vs) (auto simp: np_broadcast_def Let_def take_Cons')

lemma np_broadcast_vector:
  "d \<noteq> w \<Longrightarrow> d \<noteq> 1 \<Longrightarrow> np_broadcast [d] [w] es = None"
  by (simp add: np_broadcast_def)

lemma np_setitem_row:
  assumes "shape a = [n, w]"
  shows "np_setitem a (Idx i) v =
     (case norm_index n i of
        Inl e \<Rightarrow> Inl e
      | Inr j \<Rightarrow>
          (case np_broadcast (shape v) [w] (elems v) of
             None \<Rightarrow> Inl ValueError
           | Some r \<Rightarrow>
               Inr (NdArray [n, w] (take (j * w) (elems a) @ r @ drop (j * w + w) (elems a)))))"
  using assms
  by (simp add: np_setitem_def bindE_def write_block_def split: sum.splits option.splits)

lemma np_setitem_object_row:
  "shape a = [n, w] \<Longrightarrow> np_setitem_object box a (Idx i) v = np_setitem a (Idx i) v"
  by (simp add: np_setitem_object_def)

lemma row_of_update:
  assumes len: "length es = n * w" and i: "i < n" and j: "j < n" and r: "length r = w"
  shows "take w (drop (j * w) (take (i * w) es @ r @ drop (i * w + w) es)) =
           (if j = i then r else take w (drop (j * w) es))"
proof -
  have iw: "i * w \<le> length es" using len i by simp
  consider "j < i" | "j = i" | "i < j" by linarith
  then show ?thesis
  proof cases
    case 1
    then have "Suc j \<le> i" by simp
    then have "Suc j * w \<le> i * w" by (rule mult_le_mono1)
    then have le: "j * w + w \<le> i * w" by simp
    then have "w \<le> i * w - j * w" by simp
    then have "take w (drop (j * w) (take (i * w) es)) = take w (drop (j * w) es)"
      by (simp add: drop_take min_absorb1)
    then show ?thesis using 1 iw le by simp
  next
    case 2
    then show ?thesis using iw r by simp
  next
    case 3
    then have "Suc i \<le> j" by simp
    then have "Suc i * w \<le> j * w" by (rule mult_le_mono1)
    then have le: "i * w + w \<le> j * w" by simp
    then have "j * w - i * w - w + (i * w + w) = j * w" by simp
    then show ?thesis using 3 iw r le by (simp add: min_def)
  qed
qed

section \<open>Writes into a batch\<close>

lemma norm_index_in:
  "- int n \<le> i \<Longrightarrow> i < int n \<Longrightarrow> norm_index n i = Inr (nat (if i < 0 then i + int n else i))"
  by (simp add: norm_index_def)

lemma norm_index_out: "\<not> (- int n \<le> i \<and> i < int n) \<Longrightarrow> norm_index n i = Inl IndexError"
  by (auto simp: norm_index_def)

lemma batch_width:
  assumes "batch_ok b" "shape (array b) = [n, w]" "0 < n"
  shows "2 \<le> w"
  using assms
  by (auto simp: batch_ok_def check_consistency_def assert_array_format_def np_len_def bindE_def
      width_ok_def split: sum.splits list.splits if_splits kind.splits)

lemma batch_shape_cases:
  assumes "batch_ok v"
  obtains s where "shape (array v) = 0 # s"
  | k c where "shape (array v) = [k, c]" "0 < k" "2 \<le> c"
proof -
  from assms have c: "check_consistency v = Inr ()" by (simp add: batch_ok_def)
  then obtain k s where sh: "shape (array v) = k # s"
    by (auto simp: check_consistency_def np_len_def bindE_def split: list.splits sum.splits)
  show ?thesis
  proof (cases "k = 0")
    case True
    with sh that(1) show ?thesis by simp
  next
    case False
    with c sh have "length (shape (array v)) = 2" "width_ok (kind_of v) (last (shape (array v)))"
      by (auto simp: check_consistency_def assert_array_format_def np_len_def bindE_def
          split: list.splits sum.splits if_splits)
    with sh obtain c' where "shape (array v) = [k, c']" "width_ok (kind_of v) c'"
      by (cases s) auto
    moreover from this have "2 \<le> c'" by (auto simp: width_ok_def split: kind.splits)
    ultimately show ?thesis using that(2) False by simp
  qed
qed

lemma records_misfit:
  assumes v: "batch_ok v" and w: "2 \<le> w" and sh: "shape (array v) \<noteq> [1, w]"
  shows "np_broadcast (shape (array v)) [w] (elems (array v)) = None"
proof (rule batch_shape_cases [OF v])
  fix s
  assume s: "shape (array v) = 0 # s"
  show ?thesis
  proof (cases s)
    case Nil
    with s w show ?thesis by (simp add: np_broadcast_vector)
  next
    case (Cons c cs)
    with s show ?thesis by (simp add: np_broadcast_leading)
  qed
next
  fix k c
  assume kc: "shape (array v) = [k, c]" "0 < k" "2 \<le> c"
  show ?thesis
  proof (cases "k = 1")
    case True
    with kc sh have "c \<noteq> w" by simp
    with kc True show ?thesis by (simp add: np_broadcast_one_row)
  next
    case False
    with kc show ?thesis by (simp add: np_broadcast_leading)
  qed
qed

lemma setitem_index_error:
  assumes "shape (array b) = [n, w]" "\<not> (- int n \<le> i \<and> i < int n)"
  shows "setitem box b (Idx i) v = (Inl IndexError, b)"
  using assms by (simp add: setitem_def np_setitem_row norm_index_out)

lemma setitem_records_misfit:
  assumes b: "batch_ok b" and v: "batch_ok v" and sa: "shape (array b) = [n, w]"
    and i: "- int n \<le> i" "i < int n" and sh: "shape (array v) \<noteq> [1, w]"
  shows "setitem box b (Idx i) v = (Inl ValueError, b)"
proof -
  from i have "0 < n" by simp
  from batch_width [OF b sa this] have "2 \<le> w" .
  from records_misfit [OF v this sh] show ?thesis
    using sa i by (simp add: setitem_def np_setitem_row norm_index_in)
qed

lemma setitem_fit:
  assumes sa: "shape (array b) = [n, w]" and st: "shape (targets b) = [n, m]"
    and i: "- int n \<le> i" "i < int n" and j: "j = nat (if i < 0 then i + int n else i)"
    and va: "shape (array v) = [1, w]" "wf_array (array v)"
    and vt: "shape (targets v) = [1, m']" "wf_array (targets v)"
  shows "setitem box b (Idx i) v =
     (if m' = m \<or> m' = 1 then
        (Inr (),
         Batch (kind_of b)
           (NdArray [n, w] (take (j * w) (elems (array b)) @ elems (array v)
              @ drop (j * w + w) (elems (array b))))
           (NdArray [n, m] (take (j * m) (elems (targets b))
              @ (if m' = m then elems (targets v) else concat (replicate m (elems (targets v))))
              @ drop (j * m + m) (elems (targets b)))))
      else
        (Inl ValueError,
         Batch (kind_of b)
           (NdArray [n, w] (take (j * w) (elems (array b)) @ elems (array v)
              @ drop (j * w + w) (elems (array b))))
           (targets b)))"
proof -
  have la: "length (elems (array v)) = w" and lt: "length (elems (targets v)) = m'"
    using va vt by (simp_all add: wf_array_def)
  have n: "norm_index n i = Inr j" using norm_index_in [OF i] j by simp
  have a: "np_setitem (array b) (Idx i) (array v) =
      Inr (NdArray [n, w] (take (j * w) (elems (array b)) @ elems (array v)
              @ drop (j * w + w) (elems (array b))))"
    using la by (simp add: np_setitem_row [OF sa] n va(1) np_broadcast_one_row)
  have t: "np_setitem_object box (targets b) (Idx i) (targets v) =
      (if m' = m \<or> m' = 1 then
         Inr (NdArray [n, m] (take (j * m) (elems (targets b))
              @ (if m' = m then elems (targets v) else concat (replicate m (elems (targets v))))
              @ drop (j * m + m) (elems (targets b))))
       else Inl ValueError)"
    using lt by (simp add: np_setitem_object_row [OF st] np_setitem_row [OF st] n vt(1)
        np_broadcast_one_row)
  show ?thesis by (simp add: setitem_def a t)
qed

lemma np_row_matrix: "shape a = [n, w] \<Longrightarrow> np_row a l = take w (drop (l * w) (elems a))"
  by (simp add: np_row_def)

lemma index_row_less:
  "- int n \<le> i \<Longrightarrow> i < int n \<Longrightarrow> nat (if i < 0 then i + int n else i) < n"
  by auto

lemma setitem_rows:
  assumes b: "batch_ok b" and v: "batch_ok v"
    and sa: "shape (array b) = [n, w]" and st: "shape (targets b) = [n, m]"
    and i: "- int n \<le> i" "i < int n" and j: "j = nat (if i < 0 then i + int n else i)"
    and va: "shape (array v) = [1, w]" and vt: "shape (targets v) = [1, m']"
  shows "np_row (array (snd (setitem box b (Idx i) v))) j = elems (array v)"
    and "\<forall>l<n. l \<noteq> j \<longrightarrow>
           np_row (array (snd (setitem box b (Idx i) v))) l = np_row (array b) l"
    and "\<forall>l<n. l \<noteq> j \<longrightarrow>
           np_row (targets (snd (setitem box b (Idx i) v))) l = np_row (targets b) l"
    and "m' = m \<longrightarrow> fst (setitem box b (Idx i) v) = Inr ()
           \<and> np_row (targets (snd (setitem box b (Idx i) v))) j = elems (targets v)"
    and "m' = 1 \<longrightarrow> fst (setitem box b (Idx i) v) = Inr ()
           \<and> np_row (targets (snd (setitem box b (Idx i) v))) j
               = concat (replicate m (elems (targets v)))"
    and "m' \<noteq> m \<and> m' \<noteq> 1 \<longrightarrow> fst (setitem box b (Idx i) v) = Inl ValueError
           \<and> targets (snd (setitem box b (Idx i) v)) = targets b"
proof -
  have wa: "wf_array (array v)" and wt: "wf_array (targets v)"
    using v by (simp_all add: batch_ok_def)
  have la: "length (elems (array b)) = n * w" and lt: "length (elems (targets b)) = n * m"
    using b sa st by (simp_all add: batch_ok_def wf_array_def)
  have lva: "length (elems (array v)) = w" and lvt: "length (elems (targets v)) = m'"
    using wa wt va vt by (simp_all add: wf_array_def)
  have jn: "j < n" using index_row_less [OF i] j by simp
  note eq = setitem_fit [OF sa st i j va wa vt wt, of box]
  note ra = row_of_update [OF la jn _ lva]
  show "np_row (array (snd (setitem box b (Idx i) v))) j = elems (array v)"
    using ra [OF jn] by (simp add: eq np_row_def)
  show "\<forall>l<n. l \<noteq> j \<longrightarrow>
      np_row (array (snd (setitem box b (Idx i) v))) l = np_row (array b) l"
    using ra sa by (simp add: eq np_row_def)
  show "\<forall>l<n. l \<noteq> j \<longrightarrow>
      np_row (targets (snd (setitem box b (Idx i) v))) l = np_row (targets b) l"
  proof (intro allI impI)
    fix l assume l: "l < n" "l \<noteq> j"
    show "np_row (targets (snd (setitem box b (Idx i) v))) l = np_row (targets b) l"
    proof (cases "m' = m")
      case True
      with row_of_update [OF lt jn l(1), of "elems (targets v)"] lvt l(2) st
      show ?thesis by (simp add: eq np_row_def)
    next
      case False
      show ?thesis
      proof (cases "m' = 1")
        case True
        have "length (concat (replicate m (elems (targets v)))) = m"
          using lvt True by (simp add: length_concat sum_list_replicate)
        from row_of_update [OF lt jn l(1) this] l(2) st True False
        show ?thesis by (simp add: eq np_row_def)
      next
        case False
        with \<open>m' \<noteq> m\<close> show ?thesis by (simp add: eq)
      qed
    qed
  qed
  show "m' = m \<longrightarrow> fst (setitem box b (Idx i) v) = Inr ()
      \<and> np_row (targets (snd (setitem box b (Idx i) v))) j = elems (targets v)"
  proof
    assume m: "m' = m"
    with row_of_update [OF lt jn jn, of "elems (targets v)"] lvt
    show "fst (setitem box b (Idx i) v) = Inr ()
      \<and> np_row (targets (snd (setitem box b (Idx i) v))) j = elems (targets v)"
      by (simp add: eq np_row_def)
  qed
  show "m' = 1 \<longrightarrow> fst (setitem box b (Idx i) v) = Inr ()
      \<and> np_row (targets (snd (setitem box b (Idx i) v))) j
          = concat (replicate m (elems (targets v)))"
  proof
    assume m: "m' = 1"
    have len: "length (concat (replicate m (elems (targets v)))) = m"
      using lvt m by (simp add: length_concat sum_list_replicate)
    have one: "m = 1 \<Longrightarrow> concat (replicate m (elems (targets v))) = elems (targets v)"
      by simp
    from row_of_update [OF lt jn jn len] m one
    show "fst (setitem box b (Idx i) v) = Inr ()
      \<and> np_row (targets (snd (setitem box b (Idx i) v))) j
          = concat (replicate m (elems (targets v)))"
      by (cases "m = 1") (simp_all add: eq np_row_def)
  qed
  show "m' \<noteq> m \<and> m' \<noteq> 1 \<longrightarrow> fst (setitem box b (Idx i) v) = Inl ValueError
      \<and> targets (snd (setitem box b (Idx i) v)) = targets b"
    by (simp add: eq)
qed

text \<open>
  C4, as the code has it. \<^verbatim>\<open>__setitem__\<close> validates nothing: it assigns the records
  and then the metadata in place, and neither assignment resizes its array. Hence, for
  every index, a batch that satisfies the invariants satisfies them after the write of a
  valid batch, whether the write succeeds or raises, and both shapes are as before.

  For an integer index \<open>i\<close> into \<open>n\<close> records of width \<open>w\<close> with metadata of width
  \<open>m\<close>: out of the range \<open>-n \<le> i < n\<close> the write raises \<^verbatim>\<open>IndexError\<close> and changes
  nothing; in range, a batch that is not one record of width \<open>w\<close> raises
  \<^verbatim>\<open>ValueError\<close> and changes nothing; and one record of width \<open>w\<close> with metadata of
  shape \<open>(1, m')\<close> is written into row \<open>j\<close> (\<open>i\<close>, counted from the end when negative)
  of the records, every other row staying as it was. The metadata row \<open>j\<close> then becomes
  the batch's metadata when \<open>m' = m\<close>, or \<open>m\<close> copies of its single metadata value when
  \<open>m' = 1\<close>, and the write succeeds; for any other \<open>m'\<close> the write raises
  \<^verbatim>\<open>ValueError\<close> with the metadata untouched and the records of row \<open>j\<close> already
  replaced.
\<close>

theorem setitem_writes_rows:
  assumes "batch_ok b" "batch_ok v"
  shows "batch_ok (snd (setitem box b idx v))
     \<and> shape (array (snd (setitem box b idx v))) = shape (array b)
     \<and> shape (targets (snd (setitem box b idx v))) = shape (targets b)
     \<and> (shape (array b) = [n, w] \<and> shape (targets b) = [n, m] \<longrightarrow>
          (\<not> (- int n \<le> i \<and> i < int n) \<longrightarrow>
             setitem box b (Idx i) v = (Inl IndexError, b))
        \<and> (- int n \<le> i \<and> i < int n \<and> shape (array v) \<noteq> [1, w] \<longrightarrow>
             setitem box b (Idx i) v = (Inl ValueError, b))
        \<and> (- int n \<le> i \<and> i < int n \<and> j = nat (if i < 0 then i + int n else i)
             \<and> shape (array v) = [1, w] \<and> shape (targets v) = [1, m'] \<longrightarrow>
             np_row (array (snd (setitem box b (Idx i) v))) j = elems (array v)
           \<and> (\<forall>l<n. l \<noteq> j \<longrightarrow>
                 np_row (array (snd (setitem box b (Idx i) v))) l = np_row (array b) l)
           \<and> (\<forall>l<n. l \<noteq> j \<longrightarrow>
                 np_row (targets (snd (setitem box b (Idx i) v))) l = np_row (targets b) l)
           \<and> (m' = m \<longrightarrow> fst (setitem box b (Idx i) v) = Inr ()
                 \<and> np_row (targets (snd (setitem box b (Idx i) v))) j = elems (targets v))
           \<and> (m' = 1 \<longrightarrow> fst (setitem box b (Idx i) v) = Inr ()
                 \<and> np_row (targets (snd (setitem box b (Idx i) v))) j
                     = concat (replicate m (elems (targets v))))
           \<and> (m' \<noteq> m \<and> m' \<noteq> 1 \<longrightarrow> fst (setitem box b (Idx i) v) = Inl ValueError
                 \<and> targets (snd (setitem box b (Idx i) v)) = targets b)))"
proof (intro conjI impI)
  show "batch_ok (snd (setitem box b idx v))"
    using assms by (rule setitem_batch_ok)
  show "shape (array (snd (setitem box b idx v))) = shape (array b)"
    "shape (targets (snd (setitem box b idx v))) = shape (targets b)"
    using setitem_frame [of box b idx v] by simp_all
next
  assume "shape (array b) = [n, w] \<and> shape (targets b) = [n, m]"
    and "\<not> (- int n \<le> i \<and> i < int n)"
  then show "setitem box b (Idx i) v = (Inl IndexError, b)"
    using setitem_index_error by blast
next
  assume "shape (array b) = [n, w] \<and> shape (targets b) = [n, m]"
    and "- int n \<le> i \<and> i < int n \<and> shape (array v) \<noteq> [1, w]"
  then show "setitem box b (Idx i) v = (Inl ValueError, b)"
    using setitem_records_misfit [OF assms] by blast
next
  assume s: "shape (array b) = [n, w] \<and> shape (targets b) = [n, m]"
    and h: "- int n \<le> i \<and> i < int n \<and> j = nat (if i < 0 then i + int n else i)
             \<and> shape (array v) = [1, w] \<and> shape (targets v) = [1, m']"
  note rows = setitem_rows [OF assms, of n w m i j m' box]
  show "np_row (array (snd (setitem box b (Idx i) v))) j = elems (array v)"
    using rows(1) s h by blast
  show "\<forall>l<n. l \<noteq> j \<longrightarrow>
      np_row (array (snd (setitem box b (Idx i) v))) l = np_row (array b) l"
    using rows(2) s h by blast
  show "\<forall>l<n. l \<noteq> j \<longrightarrow>
      np_row (targets (snd (setitem box b (Idx i) v))) l = np_row (targets b) l"
    using rows(3) s h by blast
  {
    assume "m' = m"
    then show "fst (setitem box b (Idx i) v) = Inr ()"
      "np_row (targets (snd (setitem box b (Idx i) v))) j = elems (targets v)"
      using rows(4) s h by blast+
  }
  {
    assume "m' = 1"
    then show "fst (setitem box b (Idx i) v) = Inr ()"
      "np_row (targets (snd (setitem box b (Idx i) v))) j
          = concat (replicate m (elems (targets v)))"
      using rows(5) s h by blast+
  }
  {
    assume "m' \<noteq> m \<and> m' \<noteq> 1"
    then show "fst (setitem box b (Idx i) v) = Inl ValueError"
      "targets (snd (setitem box b (Idx i) v)) = targets b"
      using rows(6) s h by blast+
  }
qed

text \<open>
  A batch of two boxes with one metadata column: a one-record batch written at index 1; an
  index out of range; a two-record batch written at index 0; and a one-record batch with
  two metadata columns written at index -1.
\<close>

theorem setitem_writes_rows_witness:
  "batch_ok (snd (setitem (\<lambda>_. '''')
        (Batch Boxes (NdArray [2, 4] [0, 0, 1, 1, 0, 0, 2, 2]) (NdArray [2, 1] [''a'', ''b'']))
        (Idx 1) (Batch Boxes (NdArray [1, 4] [5, 5, 6, 6]) (NdArray [1, 1] [''x'']))))
   \<and> fst (setitem (\<lambda>_. '''')
        (Batch Boxes (NdArray [2, 4] [0, 0, 1, 1, 0, 0, 2, 2]) (NdArray [2, 1] [''a'', ''b'']))
        (Idx 1) (Batch Boxes (NdArray [1, 4] [5, 5, 6, 6]) (NdArray [1, 1] [''x'']))) = Inr ()
   \<and> np_row (array (snd (setitem (\<lambda>_. '''')
        (Batch Boxes (NdArray [2, 4] [0, 0, 1, 1, 0, 0, 2, 2]) (NdArray [2, 1] [''a'', ''b'']))
        (Idx 1) (Batch Boxes (NdArray [1, 4] [5, 5, 6, 6]) (NdArray [1, 1] [''x''])))))
        1 = [5, 5, 6, 6]
   \<and> np_row (targets (snd (setitem (\<lambda>_. '''')
        (Batch Boxes (NdArray [2, 4] [0, 0, 1, 1, 0, 0, 2, 2]) (NdArray [2, 1] [''a'', ''b'']))
        (Idx 1) (Batch Boxes (NdArray [1, 4] [5, 5, 6, 6]) (NdArray [1, 1] [''x''])))))
        1 = [''x'']
   \<and> np_row (array (snd (setitem (\<lambda>_. '''')
        (Batch Boxes (NdArray [2, 4] [0, 0, 1, 1, 0, 0, 2, 2]) (NdArray [2, 1] [''a'', ''b'']))
        (Idx 1) (Batch Boxes (NdArray [1, 4] [5, 5, 6, 6]) (NdArray [1, 1] [''x''])))))
        0 = [0, 0, 1, 1]
   \<and> setitem (\<lambda>_. '''')
        (Batch Boxes (NdArray [2, 4] [0, 0, 1, 1, 0, 0, 2, 2]) (NdArray [2, 1] [''a'', ''b'']))
        (Idx 2) (Batch Boxes (NdArray [1, 4] [5, 5, 6, 6]) (NdArray [1, 1] [''x'']))
      = (Inl IndexError,
         Batch Boxes (NdArray [2, 4] [0, 0, 1, 1, 0, 0, 2, 2]) (NdArray [2, 1] [''a'', ''b'']))
   \<and> setitem (\<lambda>_. '''')
        (Batch Boxes (NdArray [2, 4] [0, 0, 1, 1, 0, 0, 2, 2]) (NdArray [2, 1] [''a'', ''b'']))
        (Idx 0)
        (Batch Boxes (NdArray [2, 4] [0, 0, 1, 1, 0, 0, 2, 2]) (NdArray [2, 1] [''a'', ''b'']))
      = (Inl ValueError,
         Batch Boxes (NdArray [2, 4] [0, 0, 1, 1, 0, 0, 2, 2]) (NdArray [2, 1] [''a'', ''b'']))
   \<and> fst (setitem (\<lambda>_. '''')
        (Batch Boxes (NdArray [2, 4] [0, 0, 1, 1, 0, 0, 2, 2]) (NdArray [2, 1] [''a'', ''b'']))
        (Idx (- 1)) (Batch Boxes (NdArray [1, 4] [5, 5, 6, 6]) (NdArray [1, 2] [''x'', ''y''])))
      = Inl ValueError
   \<and> np_row (array (snd (setitem (\<lambda>_. '''')
        (Batch Boxes (NdArray [2, 4] [0, 0, 1, 1, 0, 0, 2, 2]) (NdArray [2, 1] [''a'', ''b'']))
        (Idx (- 1)) (Batch Boxes (NdArray [1, 4] [5, 5, 6, 6]) (NdArray [1, 2] [''x'', ''y''])))))
        1 = [5, 5, 6, 6]"
proof -
  let ?b = "Batch Boxes (NdArray [2, 4] [0, 0, 1, 1, 0, 0, 2, 2]) (NdArray [2, 1] [''a'', ''b''])"
  let ?v = "Batch Boxes (NdArray [1, 4] [5, 5, 6, 6]) (NdArray [1, 1] [''x''])"
  let ?u = "Batch Boxes (NdArray [1, 4] [5, 5, 6, 6]) (NdArray [1, 2] [''x'', ''y''])"
  have b: "batch_ok ?b" and v: "batch_ok ?v" and u: "batch_ok ?u"
    by (simp_all add: batch_defs)
  have sb: "shape (array ?b) = [2, 4] \<and> shape (targets ?b) = [2, 1]" by simp
  have in1: "- int 2 \<le> 1 \<and> (1::int) < int 2 \<and> (1::nat) = nat (if (1::int) < 0 then 1 + int 2 else 1)
      \<and> shape (array ?v) = [1, 4] \<and> shape (targets ?v) = [1, 1]" by simp
  have out: "\<not> (- int 2 \<le> 2 \<and> (2::int) < int 2)" by simp
  have mis: "- int 2 \<le> 0 \<and> (0::int) < int 2 \<and> shape (array ?b) \<noteq> [1, 4]" by simp
  have neg: "- int 2 \<le> - 1 \<and> (- 1::int) < int 2
      \<and> (1::nat) = nat (if (- 1::int) < 0 then - 1 + int 2 else - 1)
      \<and> shape (array ?u) = [1, 4] \<and> shape (targets ?u) = [1, 2]" by simp
  have neq: "(2::nat) \<noteq> 1 \<and> (2::nat) \<noteq> 1" by simp
  note w1 = setitem_writes_rows [OF b v, of "\<lambda>_. ''''" "Idx 1" 2 4 1 1 1 1]
  note w2 = setitem_writes_rows [OF b v, of "\<lambda>_. ''''" "Idx 2" 2 4 1 2 0 1]
  note w3 = setitem_writes_rows [OF b b, of "\<lambda>_. ''''" "Idx 0" 2 4 1 0 0 1]
  note w4 = setitem_writes_rows [OF b u, of "\<lambda>_. ''''" "Idx (- 1)" 2 4 1 "- 1" 1 2]
  have r0: "np_row (array ?b) 0 = [0, 0, 1, 1]" by (simp add: np_row_def)
  from w1 sb in1 have
    "batch_ok (snd (setitem (\<lambda>_. '''') ?b (Idx 1) ?v))"
    "fst (setitem (\<lambda>_. '''') ?b (Idx 1) ?v) = Inr ()"
    "np_row (array (snd (setitem (\<lambda>_. '''') ?b (Idx 1) ?v))) 1 = [5, 5, 6, 6]"
    "np_row (targets (snd (setitem (\<lambda>_. '''') ?b (Idx 1) ?v))) 1 = [''x'']"
    "np_row (array (snd (setitem (\<lambda>_. '''') ?b (Idx 1) ?v))) 0 = [0, 0, 1, 1]"
    using r0 by simp_all
  moreover from w2 sb out have
    "setitem (\<lambda>_. '''') ?b (Idx 2) ?v = (Inl IndexError, ?b)" by blast
  moreover from w3 sb mis have
    "setitem (\<lambda>_. '''') ?b (Idx 0) ?b = (Inl ValueError, ?b)" by blast
  moreover from w4 sb neg have
    "fst (setitem (\<lambda>_. '''') ?b (Idx (- 1)) ?u) = Inl ValueError"
    "np_row (array (snd (setitem (\<lambda>_. '''') ?b (Idx (- 1)) ?u))) 1 = [5, 5, 6, 6]"
    by simp_all
  ultimately show ?thesis by simp
qed

text \<open>
  C4, as the claim states it, fails. Both batches below are valid. The write into row 0
  raises, but only in the second assignment (metadata of width 2 into a row of width 1):
  the records of row 0 have been replaced by then and stay replaced. No validation ran,
  and the failure left a mutation behind.
\<close>

theorem setitem_partial_write_counterexample:
  "batch_ok (Batch Boxes (NdArray [2, 4] [0, 0, 1, 1, 0, 0, 2, 2]) (NdArray [2, 1] [''a'', ''b'']))
   \<and> batch_ok (Batch Boxes (NdArray [1, 4] [5, 5, 6, 6]) (NdArray [1, 2] [''x'', ''y'']))
   \<and> setitem (\<lambda>_. '''')
        (Batch Boxes (NdArray [2, 4] [0, 0, 1, 1, 0, 0, 2, 2]) (NdArray [2, 1] [''a'', ''b'']))
        (Idx 0) (Batch Boxes (NdArray [1, 4] [5, 5, 6, 6]) (NdArray [1, 2] [''x'', ''y'']))
      = (Inl ValueError,
         Batch Boxes (NdArray [2, 4] [5, 5, 6, 6, 0, 0, 2, 2]) (NdArray [2, 1] [''a'', ''b'']))
   \<and> NdArray [2, 4] [5, 5, 6, 6, 0, 0, 2, 2] \<noteq> NdArray [2, 4] [0, 0, 1, 1, 0, 0, 2, 2 :: real]"
  by (simp add: batch_defs setitem_defs eval_nat_numeral)

section \<open>One parameter draw for all targets\<close>

lemma setitem_row:
  assumes "shape a = [n, w]" "i < n" "length r = w"
  shows "np_setitem a (Idx (int i)) (NdArray [length r] r) =
           Inr (NdArray [n, w] (take (i * w) (elems a) @ r @ drop (i * w + w) (elems a)))"
  using assms
  by (simp add: np_setitem_def norm_index_def bindE_def write_block_def np_broadcast_same_row)

lemma rows_loop_rows:
  assumes "shape a = [n, w]" "length (elems a) = n * w" "i \<le> n"
    and "\<forall>j. i \<le> j \<and> j < n \<longrightarrow> (\<exists>r. f (np_row a j) ps = Inr r \<and> length r = w)"
  shows "\<exists>a'. rows_loop f ps [i..<n] a = Inr a' \<and> shape a' = [n, w]
           \<and> length (elems a') = n * w
           \<and> (\<forall>j<i. np_row a' j = np_row a j)
           \<and> (\<forall>j. i \<le> j \<and> j < n \<longrightarrow> f (np_row a j) ps = Inr (np_row a' j))"
  using assms
proof (induction "n - i" arbitrary: i a)
  case 0
  then have "i = n" by simp
  then show ?case using 0 by auto
next
  case (Suc m)
  then have i: "i < n" by simp
  from Suc.prems(4) i obtain r where r: "f (np_row a i) ps = Inr r" and lr: "length r = w"
    by blast
  let ?a1 = "NdArray [n, w] (take (i * w) (elems a) @ r @ drop (i * w + w) (elems a))"
  have set1: "np_setitem a (Idx (int i)) (NdArray [length r] r) = Inr ?a1"
    using setitem_row [OF Suc.prems(1) i lr] .
  have rows1: "np_row ?a1 j = (if j = i then r else np_row a j)" if "j < n" for j
    using row_of_update [OF Suc.prems(2) i that lr] Suc.prems(1) by (simp add: np_row_def)
  have len1: "length (elems ?a1) = n * w"
  proof -
    have "Suc i * w \<le> n * w" using i by (intro mult_le_mono1) simp
    then show ?thesis using Suc.prems(2) lr by simp
  qed
  have m: "m = n - Suc i" using Suc.hyps(2) by simp
  have pre: "\<forall>j. Suc i \<le> j \<and> j < n \<longrightarrow> (\<exists>r. f (np_row ?a1 j) ps = Inr r \<and> length r = w)"
    using Suc.prems(4) rows1 by auto
  from Suc.hyps(1) [OF m _ len1 _ pre] i
  obtain a' where a': "rows_loop f ps [Suc i..<n] ?a1 = Inr a'" "shape a' = [n, w]"
    "length (elems a') = n * w" "\<forall>j<Suc i. np_row a' j = np_row ?a1 j"
    "\<forall>j. Suc i \<le> j \<and> j < n \<longrightarrow> f (np_row ?a1 j) ps = Inr (np_row a' j)"
    by auto
  have "rows_loop f ps [i..<n] a = Inr a'"
    using i r set1 a'(1) by (simp add: upt_conv_Cons bindE_def)
  moreover have "\<forall>j<i. np_row a' j = np_row a j"
    using a'(4) rows1 i by auto
  moreover have "\<forall>j. i \<le> j \<and> j < n \<longrightarrow> f (np_row a j) ps = Inr (np_row a' j)"
  proof (intro allI impI)
    fix j assume j: "i \<le> j \<and> j < n"
    show "f (np_row a j) ps = Inr (np_row a' j)"
    proof (cases "j = i")
      case True
      then show ?thesis using r a'(4) rows1 [of i] i by simp
    next
      case False
      then have "Suc i \<le> j \<and> j < n" using j by simp
      with a'(5) have "f (np_row ?a1 j) ps = Inr (np_row a' j)" by blast
      moreover have "np_row ?a1 j = np_row a j" using rows1 [of j] j False by simp
      ultimately show ?thesis by simp
    qed
  qed
  ultimately show ?case using a'(2,3) by blast
qed

lemma dual_target_image:
  "profile t = Dual \<Longrightarrow> map_of (additional_targets t) ''image'' = None \<Longrightarrow>
   get_target_function t ''image'' = Inr ([], apply_img t)"
  by (simp add: get_target_function_def transform_targets_def transform_key_def bindE_def)

lemma dual_target_bboxes:
  "profile t = Dual \<Longrightarrow> map_of (additional_targets t) ''bboxes'' = None \<Longrightarrow>
   get_target_function t ''bboxes'' = Inr ([''self'', ''bboxes''], apply_to_bboxes t)"
  by (simp add: get_target_function_def transform_targets_def transform_key_def bindE_def)

lemma call_handler_plain: "call_handler ([], f) arg kw = f arg kw"
  by (simp add: call_handler_def list_ex_iff)

lemma call_handler_free:
  "a \<notin> fst ` set kw \<Longrightarrow> b \<notin> fst ` set kw \<Longrightarrow> call_handler ([a, b], f) arg kw = f arg kw"
  by (auto simp: call_handler_def list_ex_iff)

lemma select_keys_nil: "select_keys d [] = Inr []"
  by (simp add: select_keys_def bindE_def dict_update_def)

lemma dict_update_nil: "dict_update d [] = d"
  by (simp add: dict_update_def)

text \<open>
  C1, as the code has it. A \<^verbatim>\<open>DualTransform\<close> with \<open>p = 1\<close> that is neither in replay
  mode nor deterministic, for which \<^verbatim>\<open>image\<close> and \<^verbatim>\<open>bboxes\<close> are neither aliases nor
  have target dependencies, is called with exactly an image and a batch of \<open>n\<close> boxes.
  The parameters are generated once (\<open>ps0\<close>) and extended once by
  \<^verbatim>\<open>update_params\<close> (\<open>ps\<close>), and no parameter is named \<^verbatim>\<open>self\<close> or \<^verbatim>\<open>bboxes\<close>
  (such a name collides with a parameter of \<^verbatim>\<open>apply_to_bboxes\<close>). If \<^verbatim>\<open>apply\<close>
  succeeds on the image with \<open>ps\<close> and \<^verbatim>\<open>apply_to_bbox\<close> returns four values for every
  record with \<open>ps\<close>, the call returns under \<^verbatim>\<open>image\<close> the result of \<^verbatim>\<open>apply\<close> with
  \<open>ps\<close>, and under \<^verbatim>\<open>bboxes\<close> the batch with its metadata as before and with every
  record \<open>i\<close> replaced by \<^verbatim>\<open>apply_to_bbox\<close> of the record \<open>i\<close> it had, with the same
  \<open>ps\<close>.
\<close>

theorem dual_call_shares_one_parameter_draw:
  assumes dual: "profile t = Dual"
    and normal: "\<not> replay_mode t" "\<not> deterministic t"
    and prob: "p t = 1" "0 \<le> r" "r < 1"
    and no_alias: "map_of (additional_targets t) ''image'' = None"
      "map_of (additional_targets t) ''bboxes'' = None"
    and no_deps: "map_of (target_dependence t) ''image'' = None"
      "map_of (target_dependence t) ''bboxes'' = None"
    and kwargs: "kwargs = [(''image'', VArr img), (''bboxes'', VBatch b)]"
    and boxes: "shape (array b) = [n, 4]" "wf_array (array b)"
    and draw: "generate_params t g kwargs = Inr ps0"
    and upd: "update_params t ps0 kwargs = Inr ps"
    and names: "''self'' \<notin> fst ` set ps" "''bboxes'' \<notin> fst ` set ps"
    and image: "apply_img t (VArr img) ps = Inr img'"
    and records: "\<forall>i<n. \<exists>rec. apply_to_bbox t (np_row (array b) i) ps = Inr rec \<and> length rec = 4"
  shows "\<exists>a'. call t [] force_apply kwargs r g =
            Inr [(''image'', img'), (''bboxes'', VBatch (Batch (kind_of b) a' (targets b)))]
          \<and> shape a' = [n, 4] \<and> wf_array a'
          \<and> (\<forall>i<n. apply_to_bbox t (np_row (array b) i) ps = Inr (np_row a' i))"
proof -
  have len: "length (elems (array b)) = n * 4"
    using boxes by (simp add: wf_array_def)
  have pre: "\<forall>j. 0 \<le> j \<and> j < n \<longrightarrow>
      (\<exists>rec. apply_to_bbox t (np_row (array b) j) ps = Inr rec \<and> length rec = 4)"
    using records by simp
  have "0 \<le> n" by simp
  from rows_loop_rows [where f = "apply_to_bbox t" and ps = ps and i = 0, OF boxes(1) len this pre]
  obtain a' where loop: "rows_loop (apply_to_bbox t) ps [0..<n] (array b) = Inr a'"
    and sh: "shape a' = [n, 4]" and la: "length (elems a') = n * 4"
    and rows: "\<forall>j. 0 \<le> j \<and> j < n \<longrightarrow> apply_to_bbox t (np_row (array b) j) ps = Inr (np_row a' j)"
    by auto
  have bb: "apply_to_bboxes t (VBatch b) ps = Inr (VBatch (Batch (kind_of b) a' (targets b)))"
    using boxes(1) loop by (simp add: apply_to_bboxes_def apply_to_rows_def bindE_def)
  have disp: "dispatch t ps kwargs kwargs =
      Inr [(''image'', img'), (''bboxes'', VBatch (Batch (kind_of b) a' (targets b)))]"
    unfolding kwargs
    by (simp add: dual_target_image [OF dual no_alias(1)] dual_target_bboxes [OF dual no_alias(2)]
        no_deps select_keys_nil dict_update_nil image bb bindE_def call_handler_plain
        call_handler_free [OF names])
  have "fires t force_apply r" using prob by (simp add: fires_def)
  then have "call t [] force_apply kwargs r g = dispatch t ps kwargs kwargs"
    using normal draw upd
    unfolding kwargs
    by (simp add: call_def fire_def record_params_def apply_with_params_def bindE_def)
  then show ?thesis using disp sh la rows by (auto simp: wf_array_def)
qed

text \<open>
  The shifting transform on a 10 by 10 image of zeros and the batch \<^verbatim>\<open>[[1, 1, 5, 5]]\<close>
  with metadata \<^verbatim>\<open>[[]]\<close>, with the draw \<^verbatim>\<open>dx = 3\<close>: every pixel becomes 3 and the
  record becomes \<^verbatim>\<open>[4, 4, 8, 8]\<close>.
\<close>

theorem dual_call_shares_one_parameter_draw_witness:
  "\<exists>a'. call (shift_transform 1 7) [] False
           [(''image'', VArr (NdArray [10, 10] (replicate 100 0))),
            (''bboxes'', VBatch (Batch Boxes (NdArray [1, 4] [1, 1, 5, 5]) (NdArray [1, 0] [])))]
           (1 / 2) 3 =
         Inr [(''image'', VArr (NdArray [10, 10] (replicate 100 3))),
              (''bboxes'', VBatch (Batch Boxes a' (NdArray [1, 0] [])))]
       \<and> np_row a' 0 = [4, 4, 8, 8]"
proof -
  let ?t = "shift_transform 1 7"
  let ?img = "NdArray [10, 10] (replicate 100 0) :: real ndarray"
  let ?b = "Batch Boxes (NdArray [1, 4] [1, 1, 5, 5]) (NdArray [1, 0] []) :: pyvalue batch"
  let ?kw = "[(''image'', VArr ?img), (''bboxes'', VBatch ?b)]"
  let ?drawn = "[(''dx'', VInt 3)]"
  let ?full = "[(''dx'', VInt 3), (''cols'', VInt 10), (''rows'', VInt 10)]"
  have h1: "profile ?t = Dual" "\<not> replay_mode ?t" "\<not> deterministic ?t" "p ?t = 1"
    "map_of (additional_targets ?t) ''image'' = None"
    "map_of (additional_targets ?t) ''bboxes'' = None"
    "map_of (target_dependence ?t) ''image'' = None"
    "map_of (target_dependence ?t) ''bboxes'' = None"
    by (simp_all add: shift_defs)
  have h2: "shape (array ?b) = [1, 4]" "wf_array (array ?b)"
    by (simp_all add: wf_array_def)
  have h3: "generate_params ?t 3 ?kw = Inr ?drawn"
    by (simp add: generate_params_def shift_defs bindE_def)
  have h4: "update_params ?t ?drawn ?kw = Inr ?full"
    by (simp add: update_params_def shift_defs bindE_def getitem_dict_def shape_of_def dict_update_def)
  have h5: "apply_img ?t (VArr ?img) ?full = Inr (VArr (NdArray [10, 10] (replicate 100 3)))"
    by (simp add: shift_defs bindE_def)
  have h6: "\<forall>i<1. \<exists>rec. apply_to_bbox ?t (np_row (array ?b) i) ?full = Inr rec \<and> length rec = 4"
    by (simp add: shift_defs bindE_def np_row_def)
  have h7: "''self'' \<notin> fst ` set ?full" "''bboxes'' \<notin> fst ` set ?full" by simp_all
  have r: "(0::real) \<le> 1 / 2" "(1::real) / 2 < 1" by simp_all
  from dual_call_shares_one_parameter_draw [OF h1(1,2,3,4) r h1(5,6,7,8) refl h2 h3 h4 h7 h5 h6, of False]
  obtain a' where a': "call ?t [] False ?kw (1 / 2) 3 =
      Inr [(''image'', VArr (NdArray [10, 10] (replicate 100 3))),
           (''bboxes'', VBatch (Batch (kind_of ?b) a' (targets ?b)))]"
    and rows: "\<forall>i<1. apply_to_bbox ?t (np_row (array ?b) i) ?full = Inr (np_row a' i)"
    by blast
  from rows have "apply_to_bbox ?t (np_row (array ?b) 0) ?full = Inr (np_row a' 0)" by simp
  then have "np_row a' 0 = [4, 4, 8, 8]"
    by (simp add: shift_defs bindE_def np_row_def)
  with a' show ?thesis by auto
qed

text \<open>
  C1, as the claim states it, fails: a dual transform with \<open>p = 1\<close>, called with an
  image and a batch of boxes, need not return them transformed. In replay mode, not
  applied in the recorded pass, the call returns the image as it got it, where
  \<^verbatim>\<open>apply\<close> would have shifted it. A deterministic transform raises \<^verbatim>\<open>KeyError\<close> for
  want of a store. A generated parameter named \<^verbatim>\<open>bboxes\<close> raises \<^verbatim>\<open>TypeError\<close> when
  line 269 passes it to \<^verbatim>\<open>apply_to_bboxes\<close> as a keyword. With \<^verbatim>\<open>bboxes\<close> an alias of
  \<^verbatim>\<open>image\<close> the batch goes to \<^verbatim>\<open>apply\<close>, and with a target dependency of
  \<^verbatim>\<open>image\<close> on an absent \<^verbatim>\<open>mask\<close> the call raises \<^verbatim>\<open>KeyError\<close>.
\<close>

theorem dual_call_counterexample:
  "call ((shift_transform 1 7)\<lparr>replay_mode := True\<rparr>) [] False
      [(''image'', VArr (NdArray [2, 2] [0, 0, 0, 0])),
       (''bboxes'', VBatch (Batch Boxes (NdArray [1, 4] [1, 1, 5, 5]) (NdArray [1, 0] [])))]
      (1 / 2) 3
    = Inr [(''image'', VArr (NdArray [2, 2] [0, 0, 0, 0])),
           (''bboxes'', VBatch (Batch Boxes (NdArray [1, 4] [1, 1, 5, 5]) (NdArray [1, 0] [])))]
   \<and> apply_img ((shift_transform 1 7)\<lparr>replay_mode := True\<rparr>)
        (VArr (NdArray [2, 2] [0, 0, 0, 0]))
        [(''dx'', VInt 3), (''cols'', VInt 2), (''rows'', VInt 2)]
    = Inr (VArr (NdArray [2, 2] [3, 3, 3, 3]))
   \<and> call ((shift_transform 1 7)\<lparr>deterministic := True\<rparr>) [] False
      [(''image'', VArr (NdArray [2, 2] [0, 0, 0, 0])),
       (''bboxes'', VBatch (Batch Boxes (NdArray [1, 4] [1, 1, 5, 5]) (NdArray [1, 0] [])))]
      (1 / 2) 3
    = Inl KeyError
   \<and> call ((shift_transform 1 7)\<lparr>get_params := (\<lambda>g. Inr [(''dx'', VInt g), (''bboxes'', VInt 1)])\<rparr>)
      [] False
      [(''image'', VArr (NdArray [2, 2] [0, 0, 0, 0])),
       (''bboxes'', VBatch (Batch Boxes (NdArray [1, 4] [1, 1, 5, 5]) (NdArray [1, 0] [])))]
      (1 / 2) 3
    = Inl TypeError
   \<and> call ((shift_transform 1 7)\<lparr>additional_targets := [(''bboxes'', ''image'')]\<rparr>) [] False
      [(''image'', VArr (NdArray [2, 2] [0, 0, 0, 0])),
       (''bboxes'', VBatch (Batch Boxes (NdArray [1, 4] [1, 1, 5, 5]) (NdArray [1, 0] [])))]
      (1 / 2) 3
    = Inl TypeError
   \<and> call ((shift_transform 1 7)\<lparr>target_dependence := [(''image'', [''mask''])]\<rparr>) [] False
      [(''image'', VArr (NdArray [2, 2] [0, 0, 0, 0])),
       (''bboxes'', VBatch (Batch Boxes (NdArray [1, 4] [1, 1, 5, 5]) (NdArray [1, 0] [])))]
      (1 / 2) 3
    = Inl KeyError"
  by (simp add: call_defs shift_defs)

end
